theory Spec2Isabelle
  imports Complex_Main
begin

section \<open>The history ledger of terrariumDatabase.py\<close>

text \<open>
  The module declares the entities of the terrarium monitor on top of an object-relational
  mapper. The entities that take readings (\<open>Sensor\<close>, \<open>Relay\<close>, \<open>Button\<close>) each own a
  history table keyed by (owner, timestamp).

  Conventions of the embedding:
  \<^item> a \<open>datetime\<close> is the number of microseconds on the local wall clock (an \<open>int\<close>);
    \<open>datetime.now()\<close> is an explicit argument \<open>now\<close>, read once per call;
  \<^item> a Python \<open>float\<close> is a \<open>real\<close>: arithmetic is exact, rounding, infinities and
    NaN are not modelled;
  \<^item> the numeric configuration columns (\<open>orm.Optional(float, default = ...)\<close>) hold numbers;
  \<^item> the history set of one owner is the list of its rows in insertion order;
  \<^item> an \<open>update\<close> method only builds or changes mapped objects; the storage operations it
    causes are returned as a list of writes, and \<open>commit\<close> applies them to the table,
    where the primary key is enforced.
\<close>

subsection \<open>Time\<close>

type_synonym datetime = int

definition timedelta :: "int \<Rightarrow> int" where
  \<comment> \<open>\<open>timedelta(seconds=n)\<close>, in microseconds\<close>
  "timedelta seconds = seconds * 1000000"

definition replace_second_microsecond :: "datetime \<Rightarrow> datetime" where
  \<comment> \<open>\<open>t.replace(second=0, microsecond=0)\<close>: the start of the minute of \<open>t\<close>\<close>
  "replace_second_microsecond t = t - t mod 60000000"

subsection \<open>Storage: one owner's history table\<close>

datatype db_error = TransactionIntegrityError | OptimisticCheckError

datatype 'r db_write = Insert 'r | Update 'r

fun has_key :: "('r \<Rightarrow> datetime) \<Rightarrow> datetime \<Rightarrow> 'r list \<Rightarrow> bool" where
  "has_key ts k [] = False"
| "has_key ts k (h # hs) = (if ts h = k then True else has_key ts k hs)"

fun update_row :: "('r \<Rightarrow> datetime) \<Rightarrow> 'r \<Rightarrow> 'r list \<Rightarrow> 'r list" where
  "update_row ts r [] = []"
| "update_row ts r (h # hs) = (if ts h = ts r then r # hs else h # update_row ts r hs)"

fun apply_write :: "('r \<Rightarrow> datetime) \<Rightarrow> 'r db_write \<Rightarrow> 'r list \<Rightarrow> db_error + 'r list" where
  "apply_write ts (Insert r) tbl =
     (if has_key ts (ts r) tbl then Inl TransactionIntegrityError else Inr (tbl @ [r]))"
| "apply_write ts (Update r) tbl =
     (if has_key ts (ts r) tbl then Inr (update_row ts r tbl) else Inl OptimisticCheckError)"

fun commit :: "('r \<Rightarrow> datetime) \<Rightarrow> 'r db_write list \<Rightarrow> 'r list \<Rightarrow> db_error + 'r list" where
  "commit ts [] tbl = Inr tbl"
| "commit ts (w # ws) tbl =
     (case apply_write ts w tbl of Inl e \<Rightarrow> Inl e | Inr tbl' \<Rightarrow> commit ts ws tbl')"

text \<open>
  \<open>query.first()\<close> of an unordered query: the first row in primary-key order, that is the
  row of least timestamp, or \<open>None\<close>.
\<close>

fun first_asc :: "('r \<Rightarrow> datetime) \<Rightarrow> 'r list \<Rightarrow> 'r option" where
  "first_asc ts [] = None"
| "first_asc ts (h # hs) =
     (case first_asc ts hs of
        None \<Rightarrow> Some h
      | Some g \<Rightarrow> if ts g < ts h then Some g else Some h)"

text \<open>\<open>query.order_by(orm.desc(timestamp)).first()\<close>: the row of greatest timestamp.\<close>

fun first_desc :: "('r \<Rightarrow> datetime) \<Rightarrow> 'r list \<Rightarrow> 'r option" where
  "first_desc ts [] = None"
| "first_desc ts (h # hs) =
     (case first_desc ts hs of
        None \<Rightarrow> Some h
      | Some g \<Rightarrow> if ts h < ts g then Some g else Some h)"

subsection \<open>Sensor\<close>

record SensorHistory =
  sh_timestamp :: datetime
  sh_value :: real
  sh_limit_min :: real
  sh_limit_max :: real
  sh_alarm_min :: real
  sh_alarm_max :: real

record Sensor =
  s_id :: string
  s_hardware :: string
  s_type :: string
  s_name :: string
  s_address :: string
  s_limit_min :: real
  s_limit_max :: real
  s_alarm_min :: real
  s_alarm_max :: real
  s_max_diff :: real
  s_exclude_avg :: bool
  s_calibration :: "(string \<times> real) list option"
  s_history :: "SensorHistory list"

definition Sensor_MAX_VALUE_AGE :: int where
  "Sensor_MAX_VALUE_AGE = 5 * 60"

definition Sensor_VALUE_MODE :: nat where
  "Sensor_VALUE_MODE = 2"

definition Sensor_offset :: "Sensor \<Rightarrow> real" where
  "Sensor_offset self =
     (case s_calibration self of
        None \<Rightarrow> 0
      | Some c \<Rightarrow> (case map_of c ''offset'' of None \<Rightarrow> 0 | Some x \<Rightarrow> x))"

definition Sensor_value :: "datetime \<Rightarrow> Sensor \<Rightarrow> real option" where
  "Sensor_value now self =
     (case first_desc sh_timestamp
             (filter (\<lambda>h. sh_timestamp h \<ge> now - timedelta Sensor_MAX_VALUE_AGE)
                (s_history self)) of
        Some v \<Rightarrow> Some (sh_value v)
      | None \<Rightarrow> None)"

definition Sensor_error :: "datetime \<Rightarrow> Sensor \<Rightarrow> bool" where
  "Sensor_error now self = (if Sensor_value now self = None then True else False)"

definition Sensor_alarm :: "datetime \<Rightarrow> Sensor \<Rightarrow> bool" where
  "Sensor_alarm now self =
     (if Sensor_error now self then False
      else (case Sensor_value now self of
              None \<Rightarrow> False
            | Some v \<Rightarrow> \<not> (s_alarm_min self \<le> v \<and> v \<le> s_alarm_max self)))"

definition Sensor_update ::
  "datetime \<Rightarrow> Sensor \<Rightarrow> real option \<Rightarrow> SensorHistory option \<times> SensorHistory db_write list" where
  "Sensor_update now self value =
     (case value of
        None \<Rightarrow> (None, [])
      | Some v \<Rightarrow>
          let timestamp = replace_second_microsecond now;
              sensor_data = first_asc sh_timestamp
                              (filter (\<lambda>h. sh_timestamp h = timestamp) (s_history self))
          in if sensor_data \<noteq> None \<and> Sensor_VALUE_MODE = 1 then (sensor_data, [])
             else (case sensor_data of
                     Some d \<Rightarrow>
                       let d' = d\<lparr>
                             sh_value := (if Sensor_VALUE_MODE = 3 then v
                                          else (sh_value d + v) / 2),
                             sh_limit_min := (if Sensor_VALUE_MODE = 3 then s_limit_min self
                                              else (sh_limit_min d + s_limit_min self) / 2),
                             sh_limit_max := (if Sensor_VALUE_MODE = 3 then s_limit_max self
                                              else (sh_limit_max d + s_limit_max self) / 2),
                             sh_alarm_min := (if Sensor_VALUE_MODE = 3 then s_alarm_min self
                                              else (sh_alarm_min d + s_alarm_min self) / 2),
                             sh_alarm_max := (if Sensor_VALUE_MODE = 3 then s_alarm_max self
                                              else (sh_alarm_max d + s_alarm_max self) / 2)\<rparr>
                       in (Some d', [Update d'])
                   | None \<Rightarrow>
                       let d' = \<lparr>sh_timestamp = timestamp,
                                 sh_value = v,
                                 sh_limit_min = s_limit_min self,
                                 sh_limit_max = s_limit_max self,
                                 sh_alarm_min = s_alarm_min self,
                                 sh_alarm_max = s_alarm_max self\<rparr>
                       in (Some d', [Insert d'])))"

text \<open>
  One \<open>update\<close> call in its own transaction: the writes of the call are committed to the
  owner's table. The module has no handler around the call, so a storage error reaches
  the caller.
\<close>

definition Sensor_record ::
  "datetime \<Rightarrow> Sensor \<Rightarrow> real option \<Rightarrow> db_error + (SensorHistory option \<times> Sensor)" where
  "Sensor_record now self value =
     (case Sensor_update now self value of
        (res, ws) \<Rightarrow>
          (case commit sh_timestamp ws (s_history self) of
             Inl e \<Rightarrow> Inl e
           | Inr tbl \<Rightarrow> Inr (res, self\<lparr>s_history := tbl\<rparr>)))"

text \<open>
  \<open>SensorHistory.alarm\<close> is declared as \<^verbatim>\<open>@property def alarm():\<close>, a function of no
  parameter. Reading the attribute on a row makes the property call its getter with the
  row as the one positional argument. A call checks the arity before the body runs; the
  body itself names \<open>self\<close>, which is bound nowhere in the module.
\<close>

datatype py_error = TypeError | NameError

datatype ('self, 'a) py_function =
    Def0 "py_error + 'a"
  | Def1 "'self \<Rightarrow> py_error + 'a"

fun call1 :: "('self, 'a) py_function \<Rightarrow> 'self \<Rightarrow> py_error + 'a" where
  "call1 (Def0 body) obj = Inl TypeError"
| "call1 (Def1 body) obj = body obj"

definition property_get :: "('self, 'a) py_function \<Rightarrow> 'self \<Rightarrow> py_error + 'a" where
  "property_get fget obj = call1 fget obj"

definition SensorHistory_alarm_fget :: "(SensorHistory, bool) py_function" where
  "SensorHistory_alarm_fget = Def0 (Inl NameError)"

definition SensorHistory_alarm :: "SensorHistory \<Rightarrow> py_error + bool" where
  "SensorHistory_alarm row = property_get SensorHistory_alarm_fget row"

subsection \<open>Relay\<close>

definition endswith :: "string \<Rightarrow> string \<Rightarrow> bool" where
  \<comment> \<open>\<open>s.endswith(p)\<close>\<close>
  "endswith s p = (length p \<le> length s \<and> drop (length s - length p) s = p)"

record RelayHistory =
  rh_timestamp :: datetime
  rh_value :: real
  rh_wattage :: real
  rh_flow :: real

record Relay =
  r_id :: string
  r_hardware :: string
  r_name :: string
  r_address :: string
  r_wattage :: real
  r_flow :: real
  r_manual_mode :: bool
  r_calibration :: "(string \<times> real) list option"
  r_history :: "RelayHistory list"

definition Relay_MAX_VALUE_AGE :: int where
  "Relay_MAX_VALUE_AGE = 65 * 60"

definition Relay_value :: "datetime \<Rightarrow> Relay \<Rightarrow> real option" where
  "Relay_value now self =
     (case first_desc rh_timestamp
             (filter (\<lambda>h. rh_timestamp h \<ge> now - timedelta Relay_MAX_VALUE_AGE)
                (r_history self)) of
        Some v \<Rightarrow> Some (rh_value v)
      | None \<Rightarrow> None)"

definition Relay_error :: "datetime \<Rightarrow> Relay \<Rightarrow> bool" where
  "Relay_error now self = (if Relay_value now self = None then True else False)"

definition Relay_is_dimmer :: "Relay \<Rightarrow> bool" where
  "Relay_is_dimmer self = endswith (r_hardware self) ''-dimmer''"

definition Relay_is_on :: "datetime \<Rightarrow> Relay \<Rightarrow> bool" where
  "Relay_is_on now self =
     (case Relay_value now self of None \<Rightarrow> False | Some v \<Rightarrow> v > 0)"

definition Relay_is_off :: "datetime \<Rightarrow> Relay \<Rightarrow> bool" where
  "Relay_is_off now self = (\<not> Relay_is_on now self)"

definition Relay_current_wattage :: "datetime \<Rightarrow> Relay \<Rightarrow> real" where
  "Relay_current_wattage now self =
     (case Relay_value now self of None \<Rightarrow> 0 | Some v \<Rightarrow> v * r_wattage self / 100)"

definition Relay_current_flow :: "datetime \<Rightarrow> Relay \<Rightarrow> real" where
  "Relay_current_flow now self =
     (case Relay_value now self of None \<Rightarrow> 0 | Some v \<Rightarrow> v * r_flow self / 100)"

definition Relay_type :: "Relay \<Rightarrow> string" where
  "Relay_type self = (if Relay_is_dimmer self then ''dimmer'' else ''relay'')"

definition Relay_update ::
  "datetime \<Rightarrow> Relay \<Rightarrow> real option \<Rightarrow> bool \<Rightarrow> RelayHistory option \<times> RelayHistory db_write list" where
  "Relay_update now self new_value force =
     (case new_value of
        None \<Rightarrow> (None, [])
      | Some v \<Rightarrow>
          if force \<or> Some v \<noteq> Relay_value now self then
            let relay_data = \<lparr>rh_timestamp = now,
                              rh_value = v,
                              rh_wattage = (v / 100) * r_wattage self,
                              rh_flow = (v / 100) * r_flow self\<rparr>
            in (Some relay_data, [Insert relay_data])
          else (None, []))"

definition Relay_record ::
  "datetime \<Rightarrow> Relay \<Rightarrow> real option \<Rightarrow> bool \<Rightarrow> db_error + (RelayHistory option \<times> Relay)" where
  "Relay_record now self new_value force =
     (case Relay_update now self new_value force of
        (res, ws) \<Rightarrow>
          (case commit rh_timestamp ws (r_history self) of
             Inl e \<Rightarrow> Inl e
           | Inr tbl \<Rightarrow> Inr (res, self\<lparr>r_history := tbl\<rparr>)))"

subsection \<open>Button\<close>

record ButtonHistory =
  bh_timestamp :: datetime
  bh_value :: real

record Button =
  b_id :: string
  b_hardware :: string
  b_name :: string
  b_address :: string
  b_enclosure :: "string option"
  b_history :: "ButtonHistory list"

definition Button_MAX_VALUE_AGE :: int where
  "Button_MAX_VALUE_AGE = 65 * 60"

definition Button_value :: "datetime \<Rightarrow> Button \<Rightarrow> real option" where
  "Button_value now self =
     (case first_desc bh_timestamp
             (filter (\<lambda>h. bh_timestamp h \<ge> now - timedelta Button_MAX_VALUE_AGE)
                (b_history self)) of
        Some v \<Rightarrow> Some (bh_value v)
      | None \<Rightarrow> None)"

definition Button_error :: "datetime \<Rightarrow> Button \<Rightarrow> bool" where
  "Button_error now self = (if Button_value now self = None then True else False)"

definition Button_update ::
  "datetime \<Rightarrow> Button \<Rightarrow> real option \<Rightarrow> bool \<Rightarrow> ButtonHistory option \<times> ButtonHistory db_write list" where
  "Button_update now self new_value force =
     (case new_value of
        None \<Rightarrow> (None, [])
      | Some v \<Rightarrow>
          if force \<or> Some v \<noteq> Button_value now self then
            let button_data = \<lparr>bh_timestamp = now, bh_value = v\<rparr>
            in (Some button_data, [Insert button_data])
          else (None, []))"

definition Button_record ::
  "datetime \<Rightarrow> Button \<Rightarrow> real option \<Rightarrow> bool \<Rightarrow> db_error + (ButtonHistory option \<times> Button)" where
  "Button_record now self new_value force =
     (case Button_update now self new_value force of
        (res, ws) \<Rightarrow>
          (case commit bh_timestamp ws (b_history self) of
             Inl e \<Rightarrow> Inl e
           | Inr tbl \<Rightarrow> Inr (res, self\<lparr>b_history := tbl\<rparr>)))"

subsection \<open>Enclosure\<close>

text \<open>
  The image hook of \<open>Enclosure\<close>. The id is the text of a UUID (hexadecimal digits and
  hyphens), so in the pattern \<^verbatim>\<open>{self.id}\.(jpg|jpeg|gif|png)$\<close> it matches literally.
  With \<open>re.IGNORECASE\<close> letters match in either case, and \<open>$\<close> matches at the end of
  the text or just before a final newline. Paths are ASCII texts; \<open>Path\<close> is the POSIX
  flavour of \<open>pathlib\<close>. The file system belongs to the environment: \<open>rename\<close> is a
  parameter of the hook, and \<open>os_rename\<close> below is one small instance of it.
\<close>

record Enclosure =
  e_id :: string
  e_name :: string
  e_image :: string
  e_description :: string

definition ascii_lower :: "char \<Rightarrow> char" where
  "ascii_lower c =
     (case map_of (zip ''ABCDEFGHIJKLMNOPQRSTUVWXYZ'' ''abcdefghijklmnopqrstuvwxyz'') c of
        Some l \<Rightarrow> l
      | None \<Rightarrow> c)"

definition lower :: "string \<Rightarrow> string" where
  "lower s = map ascii_lower s"

definition image_extensions :: "string list" where
  "image_extensions = [''jpg'', ''jpeg'', ''gif'', ''png'']"

definition rename_regex_search :: "string \<Rightarrow> string \<Rightarrow> bool" where
  \<comment> \<open>\<open>re.compile(f'{id}\.(jpg|jpeg|gif|png)$', re.IGNORECASE).search(s)\<close> finds a match\<close>
  "rename_regex_search ident s =
     list_ex (\<lambda>ext. endswith (lower s) (lower (ident @ ''.'' @ ext))
                  \<or> endswith (lower s) (lower (ident @ ''.'' @ ext) @ [CHR 0x0A]))
       image_extensions"

fun split_sep :: "string \<Rightarrow> string list" where
  \<comment> \<open>\<open>s.split('/')\<close>\<close>
  "split_sep [] = [[]]"
| "split_sep (c # cs) =
     (if c = CHR ''/'' then [] # split_sep cs
      else (case split_sep cs of [] \<Rightarrow> [[c]] | p # ps \<Rightarrow> (c # p) # ps))"

fun join_sep :: "string list \<Rightarrow> string" where
  \<comment> \<open>\<open>'/'.join(parts)\<close>\<close>
  "join_sep [] = []"
| "join_sep [p] = p"
| "join_sep (p # q # ps) = p @ ''/'' @ join_sep (q # ps)"

definition Path_root :: "string \<Rightarrow> string" where
  "Path_root s =
     (if take 2 s = ''//'' \<and> take 3 s \<noteq> ''///'' then ''//''
      else if take 1 s = ''/'' then ''/''
      else [])"

definition Path_parts :: "string \<Rightarrow> string list" where
  "Path_parts s = filter (\<lambda>p. p \<noteq> [] \<and> p \<noteq> ''.'') (split_sep s)"

definition Path_format :: "string \<Rightarrow> string list \<Rightarrow> string" where
  "Path_format anchor parts = (if anchor = [] \<and> parts = [] then ''.'' else anchor @ join_sep parts)"

definition Path_str :: "string \<Rightarrow> string" where
  \<comment> \<open>\<open>str(Path(s))\<close>\<close>
  "Path_str s = Path_format (Path_root s) (Path_parts s)"

definition Path_parent :: "string \<Rightarrow> string" where
  \<comment> \<open>\<open>str(Path(s).parent)\<close>\<close>
  "Path_parent s = Path_format (Path_root s) (butlast (Path_parts s))"

definition Path_name :: "string \<Rightarrow> string" where
  "Path_name s = (case rev (Path_parts s) of [] \<Rightarrow> [] | p # ps \<Rightarrow> p)"

definition Path_suffix :: "string \<Rightarrow> string" where
  \<comment> \<open>\<open>Path(s).suffix\<close>: from the last dot of the name, unless that dot is its first or last character\<close>
  "Path_suffix s =
     (let name = Path_name s;
          k = length (takeWhile (\<lambda>c. c \<noteq> CHR ''.'') (rev name))
      in if CHR ''.'' \<in> set name \<and> 0 < k \<and> k + 1 < length name
         then drop (length name - (k + 1)) name
         else [])"

datatype os_error = OSError

definition os_rename :: "string list \<Rightarrow> string \<Rightarrow> string \<Rightarrow> os_error + string list" where
  \<comment> \<open>a file system as the list of its files: renaming a file that is not there fails\<close>
  "os_rename fs src dst =
     (if src \<in> set fs then Inr (dst # removeAll dst (removeAll src fs)) else Inl OSError)"

definition Enclosure_rename_image ::
  "('fs \<Rightarrow> string \<Rightarrow> string \<Rightarrow> os_error + 'fs) \<Rightarrow> 'fs \<Rightarrow> Enclosure \<Rightarrow> os_error + ('fs \<times> Enclosure)" where
  "Enclosure_rename_image rename fs self =
     (if \<not> rename_regex_search (e_id self) (e_image self) then
        let image = e_image self;
            image_name = Path_parent image @ ''/'' @ e_id self @ Path_suffix image
        in (case rename fs (Path_str image) image_name of
              Inl err \<Rightarrow> Inl err
            | Inr fs' \<Rightarrow> Inr (fs', self\<lparr>e_image := image_name\<rparr>))
      else Inr (fs, self))"

definition Enclosure_before_insert ::
  "('fs \<Rightarrow> string \<Rightarrow> string \<Rightarrow> os_error + 'fs) \<Rightarrow> 'fs \<Rightarrow> Enclosure \<Rightarrow> os_error + ('fs \<times> Enclosure)" where
  "Enclosure_before_insert rename fs self = Enclosure_rename_image rename fs self"

definition Enclosure_before_update ::
  "('fs \<Rightarrow> string \<Rightarrow> string \<Rightarrow> os_error + 'fs) \<Rightarrow> 'fs \<Rightarrow> Enclosure \<Rightarrow> os_error + ('fs \<times> Enclosure)" where
  "Enclosure_before_update rename fs self = Enclosure_rename_image rename fs self"

subsection \<open>Sequences of readings\<close>

text \<open>A run of \<open>Sensor.update\<close> calls, each in its own transaction, stopping at the first error.\<close>

fun Sensor_record_all :: "Sensor \<Rightarrow> (datetime \<times> real) list \<Rightarrow> db_error + Sensor" where
  "Sensor_record_all self [] = Inr self"
| "Sensor_record_all self ((t, v) # rs) =
     (case Sensor_record t self (Some v) of
        Inl e \<Rightarrow> Inl e
      | Inr (row, self') \<Rightarrow> Sensor_record_all self' rs)"

text \<open>The cumulative pairwise average of a reading and the readings after it, in call order.\<close>

definition pairwise_average :: "real \<Rightarrow> real list \<Rightarrow> real" where
  "pairwise_average v vs = foldl (\<lambda>a x. (a + x) / 2) v vs"

subsection \<open>Sample entities\<close>

definition sample_sensor :: Sensor where
  "sample_sensor =
     \<lparr>s_id = ''sensor1'', s_hardware = ''dht22'', s_type = ''temperature'',
      s_name = ''warm side'', s_address = ''17'',
      s_limit_min = 0, s_limit_max = 100, s_alarm_min = 0, s_alarm_max = 100,
      s_max_diff = 0, s_exclude_avg = False, s_calibration = None, s_history = []\<rparr>"

definition sample_row :: "datetime \<Rightarrow> real \<Rightarrow> SensorHistory" where
  "sample_row t v =
     \<lparr>sh_timestamp = t, sh_value = v,
      sh_limit_min = 0, sh_limit_max = 100, sh_alarm_min = 0, sh_alarm_max = 100\<rparr>"

definition sample_relay :: Relay where
  "sample_relay =
     \<lparr>r_id = ''relay1'', r_hardware = ''gpio'', r_name = ''heater'', r_address = ''23'',
      r_wattage = 60, r_flow = 2, r_manual_mode = False, r_calibration = None,
      r_history = []\<rparr>"

definition sample_button :: Button where
  "sample_button =
     \<lparr>b_id = ''button1'', b_hardware = ''magnetic'', b_name = ''door'', b_address = ''24'',
      b_enclosure = None, b_history = []\<rparr>"

definition sample_enclosure :: Enclosure where
  "sample_enclosure =
     \<lparr>e_id = ''123e4567-e89b-12d3-a456-426614174000'', e_name = ''desert'',
      e_image = ''media/upload.png'', e_description = []\<rparr>"

section \<open>Facts about the storage operations\<close>

lemma has_key_iff: "has_key ts k tbl \<longleftrightarrow> k \<in> ts ` set tbl"
  by (induction tbl) auto

lemma first_desc_None: "first_desc ts xs = None \<longleftrightarrow> xs = []"
  by (induction xs) (auto split: option.splits)

lemma first_asc_None: "first_asc ts xs = None \<longleftrightarrow> xs = []"
  by (induction xs) (auto split: option.splits)

lemma first_desc_mem: "first_desc ts xs = Some h \<Longrightarrow> h \<in> set xs"
  by (induction xs arbitrary: h) (auto split: option.splits if_splits)

lemma first_asc_mem: "first_asc ts xs = Some d \<Longrightarrow> d \<in> set xs"
  by (induction xs arbitrary: d) (auto split: option.splits if_splits)

lemma first_desc_max: "first_desc ts xs = Some h \<Longrightarrow> \<forall>g\<in>set xs. ts g \<le> ts h"
proof (induction xs arbitrary: h)
  case Nil
  then show ?case by simp
next
  case (Cons x xs)
  show ?case
  proof (cases "first_desc ts xs")
    case None
    then have "xs = []" by (simp add: first_desc_None)
    with None Cons.prems show ?thesis by simp
  next
    case (Some m)
    have m: "\<forall>y\<in>set xs. ts y \<le> ts m"
      using Cons.IH [OF Some] .
    show ?thesis
    proof (cases "ts x < ts m")
      case True
      with Some Cons.prems have "h = m" by simp
      with True m show ?thesis by auto
    next
      case False
      with Some Cons.prems have "h = x" by simp
      with False m show ?thesis by fastforce
    qed
  qed
qed

lemma first_desc_unique:
  assumes "h \<in> set xs" and "\<forall>g\<in>set xs. g = h \<or> ts g < ts h"
  shows "first_desc ts xs = Some h"
proof -
  from assms(1) have "xs \<noteq> []" by auto
  then obtain m where m: "first_desc ts xs = Some m"
    using first_desc_None [of ts xs] by (cases "first_desc ts xs") simp_all
  have "m \<in> set xs" using m by (rule first_desc_mem)
  moreover have "ts h \<le> ts m" using first_desc_max [OF m] assms(1) by simp
  ultimately have "m = h" using assms(2) by fastforce
  with m show ?thesis by simp
qed

lemma first_asc_filter_key:
  assumes "first_asc ts (filter (\<lambda>h. ts h = k) tbl) = Some d"
  shows "d \<in> set tbl \<and> ts d = k"
  using first_asc_mem [OF assms] by simp

lemma first_asc_filter_None:
  "first_asc ts (filter (\<lambda>h. ts h = k) tbl) = None \<longleftrightarrow> \<not> has_key ts k tbl"
  by (auto simp: first_asc_None filter_empty_conv has_key_iff)

lemma update_row_found:
  "first_asc ts (filter (\<lambda>h. ts h = k) tbl) = Some d \<Longrightarrow> update_row ts d tbl = tbl"
proof (induction tbl)
  case Nil
  then show ?case by simp
next
  case (Cons a tbl)
  show ?case
  proof (cases "ts a = k")
    case True
    have "first_asc ts (filter (\<lambda>h. ts h = k) (a # tbl)) = Some a"
    proof (cases "first_asc ts (filter (\<lambda>h. ts h = k) tbl)")
      case None
      with True show ?thesis by simp
    next
      case (Some g)
      then have "ts g = k" using first_asc_filter_key [of ts k tbl g] by simp
      with True Some show ?thesis by simp
    qed
    with Cons.prems have "d = a" by simp
    then show ?thesis by simp
  next
    case False
    with Cons.prems have p: "first_asc ts (filter (\<lambda>h. ts h = k) tbl) = Some d" by simp
    then have "ts d = k" using first_asc_filter_key [of ts k tbl d] by simp
    with False p Cons.IH show ?thesis by simp
  qed
qed

lemma update_row_snoc:
  "\<not> has_key ts (ts r) xs \<Longrightarrow> ts d = ts r \<Longrightarrow> update_row ts r (xs @ [d]) = xs @ [r]"
  by (induction xs) auto

lemma filter_no_key: "\<not> has_key ts k xs \<Longrightarrow> filter (\<lambda>h. ts h = k) xs = []"
  by (induction xs) (auto split: if_splits)

lemma latest_None:
  "first_desc ts (filter P xs) = None \<longleftrightarrow> (\<forall>h\<in>set xs. \<not> P h)"
  by (simp add: first_desc_None filter_empty_conv)

lemma latest_Some:
  assumes "first_desc ts (filter P xs) = Some h"
  shows "h \<in> set xs \<and> P h \<and> (\<forall>g\<in>set xs. P g \<longrightarrow> ts g \<le> ts h)"
  using first_desc_mem [OF assms] first_desc_max [OF assms] by simp

lemma latest_unique:
  assumes "h \<in> set xs" and "P h" and "\<forall>g\<in>set xs. P g \<longrightarrow> g = h \<or> ts g < ts h"
  shows "first_desc ts (filter P xs) = Some h"
  by (rule first_desc_unique) (use assms in auto)

lemma fresh_iff: "(now - w \<le> t) = (now - t \<le> (w::int))"
  by auto

section \<open>The current value\<close>

lemma Sensor_value_None:
  "Sensor_value now s = None \<longleftrightarrow>
     (\<forall>h\<in>set (s_history s). \<not> now - sh_timestamp h \<le> timedelta Sensor_MAX_VALUE_AGE)"
proof -
  let ?P = "\<lambda>h. sh_timestamp h \<ge> now - timedelta Sensor_MAX_VALUE_AGE"
  have "Sensor_value now s = None \<longleftrightarrow> first_desc sh_timestamp (filter ?P (s_history s)) = None"
    by (simp add: Sensor_value_def split: option.split)
  also have "\<dots> \<longleftrightarrow> (\<forall>h\<in>set (s_history s). \<not> ?P h)"
    by (rule latest_None)
  finally show ?thesis by (simp add: fresh_iff)
qed

lemma Sensor_value_Some:
  assumes "Sensor_value now s = Some v"
  shows "\<exists>h\<in>set (s_history s). sh_value h = v
           \<and> now - sh_timestamp h \<le> timedelta Sensor_MAX_VALUE_AGE
           \<and> (\<forall>g\<in>set (s_history s). now - sh_timestamp g \<le> timedelta Sensor_MAX_VALUE_AGE
                  \<longrightarrow> sh_timestamp g \<le> sh_timestamp h)"
proof -
  let ?P = "\<lambda>h. sh_timestamp h \<ge> now - timedelta Sensor_MAX_VALUE_AGE"
  from assms obtain h where h: "first_desc sh_timestamp (filter ?P (s_history s)) = Some h"
    and v: "sh_value h = v"
    by (auto simp: Sensor_value_def split: option.splits)
  from latest_Some [OF h] v show ?thesis
    by (auto simp: fresh_iff)
qed

lemma Sensor_value_latest:
  assumes "h \<in> set (s_history s)"
    and "now - sh_timestamp h \<le> timedelta Sensor_MAX_VALUE_AGE"
    and "\<forall>g\<in>set (s_history s). now - sh_timestamp g \<le> timedelta Sensor_MAX_VALUE_AGE
            \<longrightarrow> g = h \<or> sh_timestamp g < sh_timestamp h"
  shows "Sensor_value now s = Some (sh_value h)"
proof -
  let ?P = "\<lambda>h. sh_timestamp h \<ge> now - timedelta Sensor_MAX_VALUE_AGE"
  have "first_desc sh_timestamp (filter ?P (s_history s)) = Some h"
    by (rule latest_unique) (use assms in \<open>auto simp: fresh_iff\<close>)
  then show ?thesis by (simp add: Sensor_value_def)
qed

lemma Relay_value_None:
  "Relay_value now r = None \<longleftrightarrow>
     (\<forall>h\<in>set (r_history r). \<not> now - rh_timestamp h \<le> timedelta Relay_MAX_VALUE_AGE)"
proof -
  let ?P = "\<lambda>h. rh_timestamp h \<ge> now - timedelta Relay_MAX_VALUE_AGE"
  have "Relay_value now r = None \<longleftrightarrow> first_desc rh_timestamp (filter ?P (r_history r)) = None"
    by (simp add: Relay_value_def split: option.split)
  also have "\<dots> \<longleftrightarrow> (\<forall>h\<in>set (r_history r). \<not> ?P h)"
    by (rule latest_None)
  finally show ?thesis by (simp add: fresh_iff)
qed

lemma Relay_value_Some:
  assumes "Relay_value now r = Some v"
  shows "\<exists>h\<in>set (r_history r). rh_value h = v
           \<and> now - rh_timestamp h \<le> timedelta Relay_MAX_VALUE_AGE
           \<and> (\<forall>g\<in>set (r_history r). now - rh_timestamp g \<le> timedelta Relay_MAX_VALUE_AGE
                  \<longrightarrow> rh_timestamp g \<le> rh_timestamp h)"
proof -
  let ?P = "\<lambda>h. rh_timestamp h \<ge> now - timedelta Relay_MAX_VALUE_AGE"
  from assms obtain h where h: "first_desc rh_timestamp (filter ?P (r_history r)) = Some h"
    and v: "rh_value h = v"
    by (auto simp: Relay_value_def split: option.splits)
  from latest_Some [OF h] v show ?thesis
    by (auto simp: fresh_iff)
qed

lemma Relay_value_latest:
  assumes "h \<in> set (r_history r)"
    and "now - rh_timestamp h \<le> timedelta Relay_MAX_VALUE_AGE"
    and "\<forall>g\<in>set (r_history r). now - rh_timestamp g \<le> timedelta Relay_MAX_VALUE_AGE
            \<longrightarrow> g = h \<or> rh_timestamp g < rh_timestamp h"
  shows "Relay_value now r = Some (rh_value h)"
proof -
  let ?P = "\<lambda>h. rh_timestamp h \<ge> now - timedelta Relay_MAX_VALUE_AGE"
  have "first_desc rh_timestamp (filter ?P (r_history r)) = Some h"
    by (rule latest_unique) (use assms in \<open>auto simp: fresh_iff\<close>)
  then show ?thesis by (simp add: Relay_value_def)
qed

lemma Button_value_None:
  "Button_value now b = None \<longleftrightarrow>
     (\<forall>h\<in>set (b_history b). \<not> now - bh_timestamp h \<le> timedelta Button_MAX_VALUE_AGE)"
proof -
  let ?P = "\<lambda>h. bh_timestamp h \<ge> now - timedelta Button_MAX_VALUE_AGE"
  have "Button_value now b = None \<longleftrightarrow> first_desc bh_timestamp (filter ?P (b_history b)) = None"
    by (simp add: Button_value_def split: option.split)
  also have "\<dots> \<longleftrightarrow> (\<forall>h\<in>set (b_history b). \<not> ?P h)"
    by (rule latest_None)
  finally show ?thesis by (simp add: fresh_iff)
qed

lemma Button_value_Some:
  assumes "Button_value now b = Some v"
  shows "\<exists>h\<in>set (b_history b). bh_value h = v
           \<and> now - bh_timestamp h \<le> timedelta Button_MAX_VALUE_AGE
           \<and> (\<forall>g\<in>set (b_history b). now - bh_timestamp g \<le> timedelta Button_MAX_VALUE_AGE
                  \<longrightarrow> bh_timestamp g \<le> bh_timestamp h)"
proof -
  let ?P = "\<lambda>h. bh_timestamp h \<ge> now - timedelta Button_MAX_VALUE_AGE"
  from assms obtain h where h: "first_desc bh_timestamp (filter ?P (b_history b)) = Some h"
    and v: "bh_value h = v"
    by (auto simp: Button_value_def split: option.splits)
  from latest_Some [OF h] v show ?thesis
    by (auto simp: fresh_iff)
qed

lemma Button_value_latest:
  assumes "h \<in> set (b_history b)"
    and "now - bh_timestamp h \<le> timedelta Button_MAX_VALUE_AGE"
    and "\<forall>g\<in>set (b_history b). now - bh_timestamp g \<le> timedelta Button_MAX_VALUE_AGE
            \<longrightarrow> g = h \<or> bh_timestamp g < bh_timestamp h"
  shows "Button_value now b = Some (bh_value h)"
proof -
  let ?P = "\<lambda>h. bh_timestamp h \<ge> now - timedelta Button_MAX_VALUE_AGE"
  have "first_desc bh_timestamp (filter ?P (b_history b)) = Some h"
    by (rule latest_unique) (use assms in \<open>auto simp: fresh_iff\<close>)
  then show ?thesis by (simp add: Button_value_def)
qed

text \<open>
  Claim C3. The current value of an entity is the value of the history row of greatest
  timestamp among the rows whose age at \<open>now\<close> is at most the window of the entity's kind
  (300 seconds for a sensor, 3900 seconds for a relay and for a button), and none when no
  row is that young; \<open>error\<close> holds exactly when the current value is none. An entity
  with no history row has no current value and is in error.
\<close>

theorem current_value_within_window:
  "(Sensor_value now s = None \<longleftrightarrow>
      (\<forall>h\<in>set (s_history s). \<not> now - sh_timestamp h \<le> timedelta Sensor_MAX_VALUE_AGE))
   \<and> (\<forall>v. Sensor_value now s = Some v \<longrightarrow>
        (\<exists>h\<in>set (s_history s). sh_value h = v
           \<and> now - sh_timestamp h \<le> timedelta Sensor_MAX_VALUE_AGE
           \<and> (\<forall>g\<in>set (s_history s). now - sh_timestamp g \<le> timedelta Sensor_MAX_VALUE_AGE
                  \<longrightarrow> sh_timestamp g \<le> sh_timestamp h)))
   \<and> (\<forall>h\<in>set (s_history s).
        now - sh_timestamp h \<le> timedelta Sensor_MAX_VALUE_AGE
        \<and> (\<forall>g\<in>set (s_history s). now - sh_timestamp g \<le> timedelta Sensor_MAX_VALUE_AGE
               \<longrightarrow> g = h \<or> sh_timestamp g < sh_timestamp h)
        \<longrightarrow> Sensor_value now s = Some (sh_value h))
   \<and> Sensor_error now s = (Sensor_value now s = None)
   \<and> (s_history s = [] \<longrightarrow> Sensor_value now s = None \<and> Sensor_error now s)
   \<and> timedelta Sensor_MAX_VALUE_AGE = 300 * 1000000
   \<and> (Relay_value now r = None \<longleftrightarrow>
      (\<forall>h\<in>set (r_history r). \<not> now - rh_timestamp h \<le> timedelta Relay_MAX_VALUE_AGE))
   \<and> (\<forall>v. Relay_value now r = Some v \<longrightarrow>
        (\<exists>h\<in>set (r_history r). rh_value h = v
           \<and> now - rh_timestamp h \<le> timedelta Relay_MAX_VALUE_AGE
           \<and> (\<forall>g\<in>set (r_history r). now - rh_timestamp g \<le> timedelta Relay_MAX_VALUE_AGE
                  \<longrightarrow> rh_timestamp g \<le> rh_timestamp h)))
   \<and> (\<forall>h\<in>set (r_history r).
        now - rh_timestamp h \<le> timedelta Relay_MAX_VALUE_AGE
        \<and> (\<forall>g\<in>set (r_history r). now - rh_timestamp g \<le> timedelta Relay_MAX_VALUE_AGE
               \<longrightarrow> g = h \<or> rh_timestamp g < rh_timestamp h)
        \<longrightarrow> Relay_value now r = Some (rh_value h))
   \<and> Relay_error now r = (Relay_value now r = None)
   \<and> (r_history r = [] \<longrightarrow> Relay_value now r = None \<and> Relay_error now r)
   \<and> timedelta Relay_MAX_VALUE_AGE = 3900 * 1000000
   \<and> (Button_value now b = None \<longleftrightarrow>
      (\<forall>h\<in>set (b_history b). \<not> now - bh_timestamp h \<le> timedelta Button_MAX_VALUE_AGE))
   \<and> (\<forall>v. Button_value now b = Some v \<longrightarrow>
        (\<exists>h\<in>set (b_history b). bh_value h = v
           \<and> now - bh_timestamp h \<le> timedelta Button_MAX_VALUE_AGE
           \<and> (\<forall>g\<in>set (b_history b). now - bh_timestamp g \<le> timedelta Button_MAX_VALUE_AGE
                  \<longrightarrow> bh_timestamp g \<le> bh_timestamp h)))
   \<and> (\<forall>h\<in>set (b_history b).
        now - bh_timestamp h \<le> timedelta Button_MAX_VALUE_AGE
        \<and> (\<forall>g\<in>set (b_history b). now - bh_timestamp g \<le> timedelta Button_MAX_VALUE_AGE
               \<longrightarrow> g = h \<or> bh_timestamp g < bh_timestamp h)
        \<longrightarrow> Button_value now b = Some (bh_value h))
   \<and> Button_error now b = (Button_value now b = None)
   \<and> (b_history b = [] \<longrightarrow> Button_value now b = None \<and> Button_error now b)
   \<and> timedelta Button_MAX_VALUE_AGE = 3900 * 1000000"
proof -
  have s: "(Sensor_value now s = None \<longleftrightarrow>
      (\<forall>h\<in>set (s_history s). \<not> now - sh_timestamp h \<le> timedelta Sensor_MAX_VALUE_AGE))
   \<and> (\<forall>v. Sensor_value now s = Some v \<longrightarrow>
        (\<exists>h\<in>set (s_history s). sh_value h = v
           \<and> now - sh_timestamp h \<le> timedelta Sensor_MAX_VALUE_AGE
           \<and> (\<forall>g\<in>set (s_history s). now - sh_timestamp g \<le> timedelta Sensor_MAX_VALUE_AGE
                  \<longrightarrow> sh_timestamp g \<le> sh_timestamp h)))
   \<and> (\<forall>h\<in>set (s_history s).
        now - sh_timestamp h \<le> timedelta Sensor_MAX_VALUE_AGE
        \<and> (\<forall>g\<in>set (s_history s). now - sh_timestamp g \<le> timedelta Sensor_MAX_VALUE_AGE
               \<longrightarrow> g = h \<or> sh_timestamp g < sh_timestamp h)
        \<longrightarrow> Sensor_value now s = Some (sh_value h))
   \<and> Sensor_error now s = (Sensor_value now s = None)
   \<and> (s_history s = [] \<longrightarrow> Sensor_value now s = None \<and> Sensor_error now s)
   \<and> timedelta Sensor_MAX_VALUE_AGE = 300 * 1000000"
  proof (intro conjI allI ballI impI)
    show "Sensor_value now s = None \<longleftrightarrow>
      (\<forall>h\<in>set (s_history s). \<not> now - sh_timestamp h \<le> timedelta Sensor_MAX_VALUE_AGE)"
      by (rule Sensor_value_None)
  next
    fix v assume "Sensor_value now s = Some v"
    then show "\<exists>h\<in>set (s_history s). sh_value h = v
           \<and> now - sh_timestamp h \<le> timedelta Sensor_MAX_VALUE_AGE
           \<and> (\<forall>g\<in>set (s_history s). now - sh_timestamp g \<le> timedelta Sensor_MAX_VALUE_AGE
                  \<longrightarrow> sh_timestamp g \<le> sh_timestamp h)"
      by (rule Sensor_value_Some)
  next
    fix h assume "h \<in> set (s_history s)"
      and "now - sh_timestamp h \<le> timedelta Sensor_MAX_VALUE_AGE
        \<and> (\<forall>g\<in>set (s_history s). now - sh_timestamp g \<le> timedelta Sensor_MAX_VALUE_AGE
               \<longrightarrow> g = h \<or> sh_timestamp g < sh_timestamp h)"
    then show "Sensor_value now s = Some (sh_value h)"
      using Sensor_value_latest [of h s now] by simp
  next
    show "Sensor_error now s = (Sensor_value now s = None)"
      by (simp add: Sensor_error_def)
  next
    assume "s_history s = []"
    then show "Sensor_value now s = None" by (simp add: Sensor_value_def)
  next
    assume "s_history s = []"
    then show "Sensor_error now s" by (simp add: Sensor_error_def Sensor_value_def)
  next
    show "timedelta Sensor_MAX_VALUE_AGE = 300 * 1000000"
      by (simp add: timedelta_def Sensor_MAX_VALUE_AGE_def)
  qed
  have r: "(Relay_value now r = None \<longleftrightarrow>
      (\<forall>h\<in>set (r_history r). \<not> now - rh_timestamp h \<le> timedelta Relay_MAX_VALUE_AGE))
   \<and> (\<forall>v. Relay_value now r = Some v \<longrightarrow>
        (\<exists>h\<in>set (r_history r). rh_value h = v
           \<and> now - rh_timestamp h \<le> timedelta Relay_MAX_VALUE_AGE
           \<and> (\<forall>g\<in>set (r_history r). now - rh_timestamp g \<le> timedelta Relay_MAX_VALUE_AGE
                  \<longrightarrow> rh_timestamp g \<le> rh_timestamp h)))
   \<and> (\<forall>h\<in>set (r_history r).
        now - rh_timestamp h \<le> timedelta Relay_MAX_VALUE_AGE
        \<and> (\<forall>g\<in>set (r_history r). now - rh_timestamp g \<le> timedelta Relay_MAX_VALUE_AGE
               \<longrightarrow> g = h \<or> rh_timestamp g < rh_timestamp h)
        \<longrightarrow> Relay_value now r = Some (rh_value h))
   \<and> Relay_error now r = (Relay_value now r = None)
   \<and> (r_history r = [] \<longrightarrow> Relay_value now r = None \<and> Relay_error now r)
   \<and> timedelta Relay_MAX_VALUE_AGE = 3900 * 1000000"
  proof (intro conjI allI ballI impI)
    show "Relay_value now r = None \<longleftrightarrow>
      (\<forall>h\<in>set (r_history r). \<not> now - rh_timestamp h \<le> timedelta Relay_MAX_VALUE_AGE)"
      by (rule Relay_value_None)
  next
    fix v assume "Relay_value now r = Some v"
    then show "\<exists>h\<in>set (r_history r). rh_value h = v
           \<and> now - rh_timestamp h \<le> timedelta Relay_MAX_VALUE_AGE
           \<and> (\<forall>g\<in>set (r_history r). now - rh_timestamp g \<le> timedelta Relay_MAX_VALUE_AGE
                  \<longrightarrow> rh_timestamp g \<le> rh_timestamp h)"
      by (rule Relay_value_Some)
  next
    fix h assume "h \<in> set (r_history r)"
      and "now - rh_timestamp h \<le> timedelta Relay_MAX_VALUE_AGE
        \<and> (\<forall>g\<in>set (r_history r). now - rh_timestamp g \<le> timedelta Relay_MAX_VALUE_AGE
               \<longrightarrow> g = h \<or> rh_timestamp g < rh_timestamp h)"
    then show "Relay_value now r = Some (rh_value h)"
      using Relay_value_latest [of h r now] by simp
  next
    show "Relay_error now r = (Relay_value now r = None)"
      by (simp add: Relay_error_def)
  next
    assume "r_history r = []"
    then show "Relay_value now r = None" by (simp add: Relay_value_def)
  next
    assume "r_history r = []"
    then show "Relay_error now r" by (simp add: Relay_error_def Relay_value_def)
  next
    show "timedelta Relay_MAX_VALUE_AGE = 3900 * 1000000"
      by (simp add: timedelta_def Relay_MAX_VALUE_AGE_def)
  qed
  have b: "(Button_value now b = None \<longleftrightarrow>
      (\<forall>h\<in>set (b_history b). \<not> now - bh_timestamp h \<le> timedelta Button_MAX_VALUE_AGE))
   \<and> (\<forall>v. Button_value now b = Some v \<longrightarrow>
        (\<exists>h\<in>set (b_history b). bh_value h = v
           \<and> now - bh_timestamp h \<le> timedelta Button_MAX_VALUE_AGE
           \<and> (\<forall>g\<in>set (b_history b). now - bh_timestamp g \<le> timedelta Button_MAX_VALUE_AGE
                  \<longrightarrow> bh_timestamp g \<le> bh_timestamp h)))
   \<and> (\<forall>h\<in>set (b_history b).
        now - bh_timestamp h \<le> timedelta Button_MAX_VALUE_AGE
        \<and> (\<forall>g\<in>set (b_history b). now - bh_timestamp g \<le> timedelta Button_MAX_VALUE_AGE
               \<longrightarrow> g = h \<or> bh_timestamp g < bh_timestamp h)
        \<longrightarrow> Button_value now b = Some (bh_value h))
   \<and> Button_error now b = (Button_value now b = None)
   \<and> (b_history b = [] \<longrightarrow> Button_value now b = None \<and> Button_error now b)
   \<and> timedelta Button_MAX_VALUE_AGE = 3900 * 1000000"
  proof (intro conjI allI ballI impI)
    show "Button_value now b = None \<longleftrightarrow>
      (\<forall>h\<in>set (b_history b). \<not> now - bh_timestamp h \<le> timedelta Button_MAX_VALUE_AGE)"
      by (rule Button_value_None)
  next
    fix v assume "Button_value now b = Some v"
    then show "\<exists>h\<in>set (b_history b). bh_value h = v
           \<and> now - bh_timestamp h \<le> timedelta Button_MAX_VALUE_AGE
           \<and> (\<forall>g\<in>set (b_history b). now - bh_timestamp g \<le> timedelta Button_MAX_VALUE_AGE
                  \<longrightarrow> bh_timestamp g \<le> bh_timestamp h)"
      by (rule Button_value_Some)
  next
    fix h assume "h \<in> set (b_history b)"
      and "now - bh_timestamp h \<le> timedelta Button_MAX_VALUE_AGE
        \<and> (\<forall>g\<in>set (b_history b). now - bh_timestamp g \<le> timedelta Button_MAX_VALUE_AGE
               \<longrightarrow> g = h \<or> bh_timestamp g < bh_timestamp h)"
    then show "Button_value now b = Some (bh_value h)"
      using Button_value_latest [of h b now] by simp
  next
    show "Button_error now b = (Button_value now b = None)"
      by (simp add: Button_error_def)
  next
    assume "b_history b = []"
    then show "Button_value now b = None" by (simp add: Button_value_def)
  next
    assume "b_history b = []"
    then show "Button_error now b" by (simp add: Button_error_def Button_value_def)
  next
    show "timedelta Button_MAX_VALUE_AGE = 3900 * 1000000"
      by (simp add: timedelta_def Button_MAX_VALUE_AGE_def)
  qed
  from s r b show ?thesis
    by (elim conjE) (intro conjI, assumption+)
qed

theorem current_value_within_window_witness:
  "Sensor_value 500000000
     (sample_sensor\<lparr>s_history := [sample_row 0 21, sample_row 400000000 22]\<rparr>) = Some 22
   \<and> \<not> Sensor_error 500000000
     (sample_sensor\<lparr>s_history := [sample_row 0 21, sample_row 400000000 22]\<rparr>)
   \<and> Sensor_value 800000000
     (sample_sensor\<lparr>s_history := [sample_row 0 21, sample_row 400000000 22]\<rparr>) = None
   \<and> Sensor_error 500000000 sample_sensor
   \<and> Relay_value 4000000000
     (sample_relay\<lparr>r_history := [\<lparr>rh_timestamp = 0, rh_value = 0, rh_wattage = 0, rh_flow = 0\<rparr>,
        \<lparr>rh_timestamp = 200000000, rh_value = 100, rh_wattage = 60, rh_flow = 2\<rparr>]\<rparr>) = Some 100
   \<and> Relay_error 4000000000 sample_relay
   \<and> Button_value 4000000000
     (sample_button\<lparr>b_history := [\<lparr>bh_timestamp = 200000000, bh_value = 1\<rparr>]\<rparr>) = Some 1
   \<and> Button_error 4000000000 sample_button"
  using current_value_within_window [of 500000000
      "sample_sensor\<lparr>s_history := [sample_row 0 21, sample_row 400000000 22]\<rparr>"
      sample_relay sample_button]
    current_value_within_window [of 4000000000 sample_sensor
      "sample_relay\<lparr>r_history := [\<lparr>rh_timestamp = 0, rh_value = 0, rh_wattage = 0, rh_flow = 0\<rparr>,
        \<lparr>rh_timestamp = 200000000, rh_value = 100, rh_wattage = 60, rh_flow = 2\<rparr>]\<rparr>"
      "sample_button\<lparr>b_history := [\<lparr>bh_timestamp = 200000000, bh_value = 1\<rparr>]\<rparr>"]
  by (simp add: Sensor_value_def Sensor_error_def Relay_value_def Relay_error_def
      Button_value_def Button_error_def sample_sensor_def sample_row_def sample_relay_def
      sample_button_def timedelta_def Sensor_MAX_VALUE_AGE_def Relay_MAX_VALUE_AGE_def
      Button_MAX_VALUE_AGE_def)

section \<open>Derived properties\<close>

text \<open>
  Claim C7. A relay is on exactly when it has a current value and that value is positive,
  and it is off exactly when it is not on. When every reading of the relay is older than
  the window of 65 minutes, the relay is in error and is not on.
\<close>

theorem Relay_is_on_iff:
  "Relay_is_on now r = (\<exists>v. Relay_value now r = Some v \<and> v > 0)
   \<and> Relay_is_off now r = (\<not> Relay_is_on now r)
   \<and> ((\<forall>h\<in>set (r_history r). now - rh_timestamp h > timedelta Relay_MAX_VALUE_AGE)
        \<longrightarrow> Relay_error now r \<and> \<not> Relay_is_on now r)
   \<and> timedelta Relay_MAX_VALUE_AGE = 65 * 60 * 1000000"
proof (intro conjI impI)
  show "Relay_is_on now r = (\<exists>v. Relay_value now r = Some v \<and> v > 0)"
    by (cases "Relay_value now r") (simp_all add: Relay_is_on_def)
next
  show "Relay_is_off now r = (\<not> Relay_is_on now r)"
    by (simp add: Relay_is_off_def)
next
  assume old: "\<forall>h\<in>set (r_history r). now - rh_timestamp h > timedelta Relay_MAX_VALUE_AGE"
  then have none: "Relay_value now r = None"
    using Relay_value_None [of now r] by fastforce
  then show "Relay_error now r" by (simp add: Relay_error_def)
  from none show "\<not> Relay_is_on now r" by (simp add: Relay_is_on_def)
next
  show "timedelta Relay_MAX_VALUE_AGE = 65 * 60 * 1000000"
    by (simp add: timedelta_def Relay_MAX_VALUE_AGE_def)
qed

theorem Relay_is_on_iff_witness:
  "3960000000 - rh_timestamp \<lparr>rh_timestamp = 0, rh_value = 100, rh_wattage = 60, rh_flow = 2\<rparr>
     > timedelta Relay_MAX_VALUE_AGE
   \<and> Relay_error 3960000000
       (sample_relay\<lparr>r_history := [\<lparr>rh_timestamp = 0, rh_value = 100, rh_wattage = 60, rh_flow = 2\<rparr>]\<rparr>)
   \<and> \<not> Relay_is_on 3960000000
       (sample_relay\<lparr>r_history := [\<lparr>rh_timestamp = 0, rh_value = 100, rh_wattage = 60, rh_flow = 2\<rparr>]\<rparr>)
   \<and> Relay_is_off 3960000000
       (sample_relay\<lparr>r_history := [\<lparr>rh_timestamp = 0, rh_value = 100, rh_wattage = 60, rh_flow = 2\<rparr>]\<rparr>)
   \<and> Relay_is_on 3900000000
       (sample_relay\<lparr>r_history := [\<lparr>rh_timestamp = 0, rh_value = 100, rh_wattage = 60, rh_flow = 2\<rparr>]\<rparr>)"
  using Relay_is_on_iff [of 3960000000
      "sample_relay\<lparr>r_history := [\<lparr>rh_timestamp = 0, rh_value = 100, rh_wattage = 60, rh_flow = 2\<rparr>]\<rparr>"]
    Relay_is_on_iff [of 3900000000
      "sample_relay\<lparr>r_history := [\<lparr>rh_timestamp = 0, rh_value = 100, rh_wattage = 60, rh_flow = 2\<rparr>]\<rparr>"]
  by (simp add: Relay_value_def sample_relay_def timedelta_def Relay_MAX_VALUE_AGE_def)

lemma Sensor_value_snapshot:
  "Sensor_value now
     (s\<lparr>s_history := map (\<lambda>h. h\<lparr>sh_alarm_min := f h, sh_alarm_max := g h\<rparr>) (s_history s)\<rparr>)
   = Sensor_value now s"
proof -
  have "first_desc sh_timestamp
          (filter P (map (\<lambda>h. h\<lparr>sh_alarm_min := f h, sh_alarm_max := g h\<rparr>) xs))
        = map_option (\<lambda>h. h\<lparr>sh_alarm_min := f h, sh_alarm_max := g h\<rparr>)
            (first_desc sh_timestamp (filter (\<lambda>h. P (h\<lparr>sh_alarm_min := f h, sh_alarm_max := g h\<rparr>)) xs))"
    for P xs
    by (induction xs) (auto split: option.splits)
  then show ?thesis
    by (simp add: Sensor_value_def split: option.splits)
qed

text \<open>
  Claim C4. The alarm of a sensor is false when the sensor is in error, and otherwise it
  is the negation of \<open>alarm_min \<le> value \<le> alarm_max\<close> with the thresholds of the sensor
  itself: the thresholds stored in the history rows play no part. Setting \<open>alarm_max\<close> on
  the sensor leaves the history as it is, and the next evaluation uses the new threshold;
  a current value inside the old range and above the new \<open>alarm_max\<close> turns the alarm on.
\<close>

theorem Sensor_alarm_live_thresholds:
  "Sensor_alarm now s =
     (case Sensor_value now s of
        None \<Rightarrow> False
      | Some v \<Rightarrow> \<not> (s_alarm_min s \<le> v \<and> v \<le> s_alarm_max s))
   \<and> (Sensor_error now s \<longrightarrow> \<not> Sensor_alarm now s)
   \<and> Sensor_alarm now
       (s\<lparr>s_history := map (\<lambda>h. h\<lparr>sh_alarm_min := f h, sh_alarm_max := g h\<rparr>) (s_history s)\<rparr>)
     = Sensor_alarm now s
   \<and> s_history (s\<lparr>s_alarm_max := m\<rparr>) = s_history s
   \<and> Sensor_alarm now (s\<lparr>s_alarm_max := m\<rparr>) =
       (case Sensor_value now s of
          None \<Rightarrow> False
        | Some v \<Rightarrow> \<not> (s_alarm_min s \<le> v \<and> v \<le> m))
   \<and> (Sensor_value now s = Some v \<and> s_alarm_min s \<le> v \<and> v \<le> s_alarm_max s \<and> m < v
        \<longrightarrow> \<not> Sensor_alarm now s \<and> Sensor_alarm now (s\<lparr>s_alarm_max := m\<rparr>))"
proof -
  have a: "Sensor_alarm now s =
     (case Sensor_value now s of
        None \<Rightarrow> False
      | Some v \<Rightarrow> \<not> (s_alarm_min s \<le> v \<and> v \<le> s_alarm_max s))" for s
    by (simp add: Sensor_alarm_def Sensor_error_def split: option.splits)
  have v: "Sensor_value now (s\<lparr>s_alarm_max := m\<rparr>) = Sensor_value now s"
    by (simp add: Sensor_value_def)
  have b: "Sensor_error now s \<longrightarrow> \<not> Sensor_alarm now s"
    by (simp add: Sensor_alarm_def)
  have c: "Sensor_alarm now
       (s\<lparr>s_history := map (\<lambda>h. h\<lparr>sh_alarm_min := f h, sh_alarm_max := g h\<rparr>) (s_history s)\<rparr>)
     = Sensor_alarm now s"
    by (simp add: a Sensor_value_snapshot split: option.split)
  have d: "Sensor_alarm now (s\<lparr>s_alarm_max := m\<rparr>) =
       (case Sensor_value now s of
          None \<Rightarrow> False
        | Some v \<Rightarrow> \<not> (s_alarm_min s \<le> v \<and> v \<le> m))"
    by (simp add: a v split: option.split)
  have e: "Sensor_value now s = Some v \<and> s_alarm_min s \<le> v \<and> v \<le> s_alarm_max s \<and> m < v
        \<longrightarrow> \<not> Sensor_alarm now s \<and> Sensor_alarm now (s\<lparr>s_alarm_max := m\<rparr>)"
  proof (intro impI conjI)
    assume h: "Sensor_value now s = Some v \<and> s_alarm_min s \<le> v \<and> v \<le> s_alarm_max s \<and> m < v"
    then show "\<not> Sensor_alarm now s" using a [of s] by simp
    from h show "Sensor_alarm now (s\<lparr>s_alarm_max := m\<rparr>)" using d by simp
  qed
  from a [of s] b c d e show ?thesis by simp
qed

theorem Sensor_alarm_live_thresholds_witness:
  "Sensor_value 100000000 (sample_sensor\<lparr>s_history := [sample_row 60000000 25]\<rparr>) = Some 25
   \<and> s_alarm_min (sample_sensor\<lparr>s_history := [sample_row 60000000 25]\<rparr>) \<le> 25
   \<and> 25 \<le> s_alarm_max (sample_sensor\<lparr>s_history := [sample_row 60000000 25]\<rparr>)
   \<and> (20::real) < 25
   \<and> \<not> Sensor_alarm 100000000 (sample_sensor\<lparr>s_history := [sample_row 60000000 25]\<rparr>)
   \<and> Sensor_alarm 100000000
       (sample_sensor\<lparr>s_history := [sample_row 60000000 25], s_alarm_max := 20\<rparr>)
   \<and> s_history (sample_sensor\<lparr>s_history := [sample_row 60000000 25], s_alarm_max := 20\<rparr>)
       = [sample_row 60000000 25]
   \<and> sh_alarm_max (sample_row 60000000 25) = 100"
  using Sensor_alarm_live_thresholds [of 100000000
      "sample_sensor\<lparr>s_history := [sample_row 60000000 25]\<rparr>" _ _ 20 25]
  by (simp add: Sensor_value_def sample_sensor_def sample_row_def timedelta_def
      Sensor_MAX_VALUE_AGE_def)

text \<open>
  Claim C9. Reading the \<open>alarm\<close> property of a history row of a sensor fails for every
  row: the getter takes no parameter, so the call that passes the row to it raises
  \<open>TypeError\<close> and no comparison with the stored thresholds is ever made.
\<close>

theorem SensorHistory_alarm_raises:
  "SensorHistory_alarm row = Inl TypeError"
  by (simp add: SensorHistory_alarm_def property_get_def SensorHistory_alarm_fget_def)

section \<open>Sensor readings\<close>

lemma probe_snoc:
  assumes "\<not> has_key ts k xs" and "ts d = k"
  shows "first_asc ts (filter (\<lambda>h. ts h = k) (xs @ [d])) = Some d"
proof -
  from assms(1) have "filter (\<lambda>h. ts h = k) xs = []"
    by (auto simp: has_key_iff filter_empty_conv)
  with assms(2) show ?thesis by simp
qed

lemma Sensor_update_new:
  assumes "first_asc sh_timestamp
             (filter (\<lambda>h. sh_timestamp h = replace_second_microsecond now) (s_history s)) = None"
  shows "Sensor_update now s (Some v) =
           (Some \<lparr>sh_timestamp = replace_second_microsecond now, sh_value = v,
                  sh_limit_min = s_limit_min s, sh_limit_max = s_limit_max s,
                  sh_alarm_min = s_alarm_min s, sh_alarm_max = s_alarm_max s\<rparr>,
            [Insert \<lparr>sh_timestamp = replace_second_microsecond now, sh_value = v,
                  sh_limit_min = s_limit_min s, sh_limit_max = s_limit_max s,
                  sh_alarm_min = s_alarm_min s, sh_alarm_max = s_alarm_max s\<rparr>])"
  using assms by (simp add: Sensor_update_def Let_def)

lemma Sensor_update_merge:
  assumes "first_asc sh_timestamp
             (filter (\<lambda>h. sh_timestamp h = replace_second_microsecond now) (s_history s)) = Some d"
  shows "Sensor_update now s (Some v) =
           (Some (d\<lparr>sh_value := (sh_value d + v) / 2,
                    sh_limit_min := (sh_limit_min d + s_limit_min s) / 2,
                    sh_limit_max := (sh_limit_max d + s_limit_max s) / 2,
                    sh_alarm_min := (sh_alarm_min d + s_alarm_min s) / 2,
                    sh_alarm_max := (sh_alarm_max d + s_alarm_max s) / 2\<rparr>),
            [Update (d\<lparr>sh_value := (sh_value d + v) / 2,
                    sh_limit_min := (sh_limit_min d + s_limit_min s) / 2,
                    sh_limit_max := (sh_limit_max d + s_limit_max s) / 2,
                    sh_alarm_min := (sh_alarm_min d + s_alarm_min s) / 2,
                    sh_alarm_max := (sh_alarm_max d + s_alarm_max s) / 2\<rparr>)])"
  using assms by (simp add: Sensor_update_def Let_def Sensor_VALUE_MODE_def)

lemma Sensor_record_new:
  assumes "first_asc sh_timestamp
             (filter (\<lambda>h. sh_timestamp h = replace_second_microsecond now) (s_history s)) = None"
  shows "Sensor_record now s (Some v) =
           Inr (Some \<lparr>sh_timestamp = replace_second_microsecond now, sh_value = v,
                  sh_limit_min = s_limit_min s, sh_limit_max = s_limit_max s,
                  sh_alarm_min = s_alarm_min s, sh_alarm_max = s_alarm_max s\<rparr>,
                s\<lparr>s_history := s_history s @
                  [\<lparr>sh_timestamp = replace_second_microsecond now, sh_value = v,
                  sh_limit_min = s_limit_min s, sh_limit_max = s_limit_max s,
                  sh_alarm_min = s_alarm_min s, sh_alarm_max = s_alarm_max s\<rparr>]\<rparr>)"
proof -
  from assms have "\<not> has_key sh_timestamp (replace_second_microsecond now) (s_history s)"
    by (simp add: first_asc_filter_None)
  then show ?thesis
    by (simp add: Sensor_record_def Sensor_update_new [OF assms])
qed

lemma Sensor_record_merge:
  assumes "first_asc sh_timestamp
             (filter (\<lambda>h. sh_timestamp h = replace_second_microsecond now) (s_history s)) = Some d"
  shows "Sensor_record now s (Some v) =
           Inr (Some (d\<lparr>sh_value := (sh_value d + v) / 2,
                    sh_limit_min := (sh_limit_min d + s_limit_min s) / 2,
                    sh_limit_max := (sh_limit_max d + s_limit_max s) / 2,
                    sh_alarm_min := (sh_alarm_min d + s_alarm_min s) / 2,
                    sh_alarm_max := (sh_alarm_max d + s_alarm_max s) / 2\<rparr>),
                s\<lparr>s_history := update_row sh_timestamp
                  (d\<lparr>sh_value := (sh_value d + v) / 2,
                    sh_limit_min := (sh_limit_min d + s_limit_min s) / 2,
                    sh_limit_max := (sh_limit_max d + s_limit_max s) / 2,
                    sh_alarm_min := (sh_alarm_min d + s_alarm_min s) / 2,
                    sh_alarm_max := (sh_alarm_max d + s_alarm_max s) / 2\<rparr>)
                  (s_history s)\<rparr>)"
proof -
  from first_asc_filter_key [OF assms]
  have "has_key sh_timestamp (sh_timestamp d) (s_history s)"
    unfolding has_key_iff by (intro imageI) simp
  then show ?thesis
    by (simp add: Sensor_record_def Sensor_update_merge [OF assms])
qed

lemma Sensor_record_None: "Sensor_record now s None = Inr (None, s)"
  by (simp add: Sensor_record_def Sensor_update_def)

text \<open>
  Claim C10. For a non-null reading \<open>Sensor.update\<close> always returns a row and causes
  exactly one write, an insert or an update of the row of the minute: the mode is the
  constant 2, so the row found for the minute is never returned as it is and never
  overwritten, it is averaged with the reading, also when the reading repeats the
  stored value. The write always commits.
\<close>

theorem Sensor_update_one_write:
  "Sensor_VALUE_MODE = 2
   \<and> (\<exists>row w. Sensor_update now s (Some v) = (Some row, [w])
         \<and> (w = Insert row \<or> w = Update row))
   \<and> (\<exists>row s'. Sensor_record now s (Some v) = Inr (Some row, s'))
   \<and> (case first_asc sh_timestamp
              (filter (\<lambda>h. sh_timestamp h = replace_second_microsecond now) (s_history s)) of
         None \<Rightarrow>
           snd (Sensor_update now s (Some v)) =
             [Insert \<lparr>sh_timestamp = replace_second_microsecond now, sh_value = v,
                  sh_limit_min = s_limit_min s, sh_limit_max = s_limit_max s,
                  sh_alarm_min = s_alarm_min s, sh_alarm_max = s_alarm_max s\<rparr>]
       | Some d \<Rightarrow>
           snd (Sensor_update now s (Some v)) =
             [Update (d\<lparr>sh_value := (sh_value d + v) / 2,
                    sh_limit_min := (sh_limit_min d + s_limit_min s) / 2,
                    sh_limit_max := (sh_limit_max d + s_limit_max s) / 2,
                    sh_alarm_min := (sh_alarm_min d + s_alarm_min s) / 2,
                    sh_alarm_max := (sh_alarm_max d + s_alarm_max s) / 2\<rparr>)])"
proof (cases "first_asc sh_timestamp
              (filter (\<lambda>h. sh_timestamp h = replace_second_microsecond now) (s_history s))")
  case None
  show ?thesis
    by (simp add: None Sensor_update_new [OF None] Sensor_record_new [OF None]
        Sensor_VALUE_MODE_def)
next
  case (Some d)
  show ?thesis
    by (simp add: Some Sensor_update_merge [OF Some] Sensor_record_merge [OF Some]
        Sensor_VALUE_MODE_def)
qed

theorem Sensor_update_one_write_witness:
  "Sensor_update 60000005 (sample_sensor\<lparr>s_history := [sample_row 60000000 20]\<rparr>) (Some 20)
     = (Some (sample_row 60000000 20), [Update (sample_row 60000000 20)])
   \<and> Sensor_update 60000005 sample_sensor (Some 20)
     = (Some (sample_row 60000000 20), [Insert (sample_row 60000000 20)])
   \<and> Sensor_update 60000005 (sample_sensor\<lparr>s_history := [sample_row 60000000 20]\<rparr>) (Some 30)
     = (Some (sample_row 60000000 25), [Update (sample_row 60000000 25)])"
  using Sensor_update_one_write [of 60000005
      "sample_sensor\<lparr>s_history := [sample_row 60000000 20]\<rparr>" 20]
  by (simp add: Sensor_update_def Let_def Sensor_VALUE_MODE_def sample_sensor_def
      sample_row_def replace_second_microsecond_def)

lemma Sensor_record_same_minute:
  assumes hist: "s_history s = xs @ [d]"
    and fresh: "\<not> has_key sh_timestamp (sh_timestamp d) xs"
    and minute: "replace_second_microsecond t = sh_timestamp d"
    and thresholds: "sh_limit_min d = s_limit_min s" "sh_limit_max d = s_limit_max s"
      "sh_alarm_min d = s_alarm_min s" "sh_alarm_max d = s_alarm_max s"
  shows "Sensor_record t s (Some v) =
           Inr (Some (d\<lparr>sh_value := (sh_value d + v) / 2\<rparr>),
                s\<lparr>s_history := xs @ [d\<lparr>sh_value := (sh_value d + v) / 2\<rparr>]\<rparr>)"
proof -
  have probe: "first_asc sh_timestamp
      (filter (\<lambda>h. sh_timestamp h = replace_second_microsecond t) (s_history s)) = Some d"
    unfolding hist minute using fresh by (rule probe_snoc) simp
  have merged: "d\<lparr>sh_value := (sh_value d + v) / 2,
                    sh_limit_min := (sh_limit_min d + s_limit_min s) / 2,
                    sh_limit_max := (sh_limit_max d + s_limit_max s) / 2,
                    sh_alarm_min := (sh_alarm_min d + s_alarm_min s) / 2,
                    sh_alarm_max := (sh_alarm_max d + s_alarm_max s) / 2\<rparr>
                = d\<lparr>sh_value := (sh_value d + v) / 2\<rparr>"
    using thresholds by simp
  have "update_row sh_timestamp (d\<lparr>sh_value := (sh_value d + v) / 2\<rparr>) (xs @ [d])
          = xs @ [d\<lparr>sh_value := (sh_value d + v) / 2\<rparr>]"
    by (rule update_row_snoc) (use fresh in simp_all)
  then show ?thesis
    unfolding Sensor_record_merge [OF probe] merged by (simp add: hist)
qed

lemma Sensor_record_all_same_minute:
  assumes "s_history s = xs @ [d]"
    and "\<not> has_key sh_timestamp (sh_timestamp d) xs"
    and "\<forall>(t, x)\<in>set rs. replace_second_microsecond t = sh_timestamp d"
    and "sh_limit_min d = s_limit_min s" "sh_limit_max d = s_limit_max s"
      "sh_alarm_min d = s_alarm_min s" "sh_alarm_max d = s_alarm_max s"
  shows "Sensor_record_all s rs =
           Inr (s\<lparr>s_history := xs @ [d\<lparr>sh_value := pairwise_average (sh_value d) (map snd rs)\<rparr>]\<rparr>)"
  using assms
proof (induction rs arbitrary: s d)
  case Nil
  then show ?case by (simp add: pairwise_average_def)
next
  case (Cons r rs)
  obtain t v where r: "r = (t, v)" by (cases r)
  let ?d = "d\<lparr>sh_value := (sh_value d + v) / 2\<rparr>"
  let ?s = "s\<lparr>s_history := xs @ [?d]\<rparr>"
  from Cons.prems(3) r have minute: "replace_second_microsecond t = sh_timestamp d"
    by simp
  have step: "Sensor_record t s (Some v) = Inr (Some ?d, ?s)"
    using Cons.prems(1,2) minute Cons.prems(4-7) by (rule Sensor_record_same_minute)
  have rest: "Sensor_record_all ?s rs =
      Inr (?s\<lparr>s_history := xs @ [?d\<lparr>sh_value := pairwise_average (sh_value ?d) (map snd rs)\<rparr>]\<rparr>)"
  proof (rule Cons.IH)
    show "s_history ?s = xs @ [?d]" by simp
    show "\<not> has_key sh_timestamp (sh_timestamp ?d) xs" using Cons.prems(2) by simp
    show "\<forall>(t, x)\<in>set rs. replace_second_microsecond t = sh_timestamp ?d"
      using Cons.prems(3) by simp
    show "sh_limit_min ?d = s_limit_min ?s" "sh_limit_max ?d = s_limit_max ?s"
      "sh_alarm_min ?d = s_alarm_min ?s" "sh_alarm_max ?d = s_alarm_max ?s"
      using Cons.prems(4-7) by simp_all
  qed
  show ?case
    unfolding r by (simp add: step rest pairwise_average_def)
qed

lemma Sensor_record_all_new_minute:
  assumes new: "\<not> has_key sh_timestamp b (s_history s)"
    and minute: "\<forall>(t, x)\<in>set ((t1, v1) # rs). replace_second_microsecond t = b"
  shows "Sensor_record_all s ((t1, v1) # rs) =
           Inr (s\<lparr>s_history := s_history s @
                  [\<lparr>sh_timestamp = b, sh_value = pairwise_average v1 (map snd rs),
                    sh_limit_min = s_limit_min s, sh_limit_max = s_limit_max s,
                    sh_alarm_min = s_alarm_min s, sh_alarm_max = s_alarm_max s\<rparr>]\<rparr>)"
proof -
  let ?d = "\<lparr>sh_timestamp = b, sh_value = v1,
              sh_limit_min = s_limit_min s, sh_limit_max = s_limit_max s,
              sh_alarm_min = s_alarm_min s, sh_alarm_max = s_alarm_max s\<rparr>"
  let ?s = "s\<lparr>s_history := s_history s @ [?d]\<rparr>"
  from minute have b: "replace_second_microsecond t1 = b" by simp
  have probe: "first_asc sh_timestamp
      (filter (\<lambda>h. sh_timestamp h = replace_second_microsecond t1) (s_history s)) = None"
    using new by (simp add: first_asc_filter_None b)
  have first: "Sensor_record t1 s (Some v1) = Inr (Some ?d, ?s)"
    using Sensor_record_new [OF probe, of v1] by (simp add: b)
  have rest: "Sensor_record_all ?s rs =
      Inr (?s\<lparr>s_history := s_history s @
             [?d\<lparr>sh_value := pairwise_average (sh_value ?d) (map snd rs)\<rparr>]\<rparr>)"
  proof (rule Sensor_record_all_same_minute)
    show "s_history ?s = s_history s @ [?d]" by simp
    show "\<not> has_key sh_timestamp (sh_timestamp ?d) (s_history s)" using new by simp
    show "\<forall>(t, x)\<in>set rs. replace_second_microsecond t = sh_timestamp ?d"
      using minute by simp
  qed simp_all
  show ?thesis by (simp add: first rest)
qed

text \<open>
  Claim C1. With a non-null reading and a row already stored for the minute of \<open>now\<close>,
  the value of the row becomes the average of the stored value and the reading, and each
  of its four thresholds becomes the average of the stored threshold and the sensor's
  present threshold. With no row for the minute, a row is added that holds the reading
  and the sensor's thresholds as they are. Hence any run of readings within one minute
  \<open>b\<close> that had no row leaves exactly one row for \<open>b\<close>, whose value is the cumulative
  pairwise average of the readings in call order: 10, 20, 30 give 22.5.
\<close>

theorem Sensor_update_running_average:
  "(\<forall>d. first_asc sh_timestamp
          (filter (\<lambda>h. sh_timestamp h = replace_second_microsecond now) (s_history s)) = Some d
      \<longrightarrow> Sensor_record now s (Some v) =
           Inr (Some (d\<lparr>sh_value := (sh_value d + v) / 2,
                    sh_limit_min := (sh_limit_min d + s_limit_min s) / 2,
                    sh_limit_max := (sh_limit_max d + s_limit_max s) / 2,
                    sh_alarm_min := (sh_alarm_min d + s_alarm_min s) / 2,
                    sh_alarm_max := (sh_alarm_max d + s_alarm_max s) / 2\<rparr>),
                s\<lparr>s_history := update_row sh_timestamp
                  (d\<lparr>sh_value := (sh_value d + v) / 2,
                    sh_limit_min := (sh_limit_min d + s_limit_min s) / 2,
                    sh_limit_max := (sh_limit_max d + s_limit_max s) / 2,
                    sh_alarm_min := (sh_alarm_min d + s_alarm_min s) / 2,
                    sh_alarm_max := (sh_alarm_max d + s_alarm_max s) / 2\<rparr>)
                  (s_history s)\<rparr>))
   \<and> (first_asc sh_timestamp
          (filter (\<lambda>h. sh_timestamp h = replace_second_microsecond now) (s_history s)) = None
      \<longrightarrow> Sensor_record now s (Some v) =
           Inr (Some \<lparr>sh_timestamp = replace_second_microsecond now, sh_value = v,
                  sh_limit_min = s_limit_min s, sh_limit_max = s_limit_max s,
                  sh_alarm_min = s_alarm_min s, sh_alarm_max = s_alarm_max s\<rparr>,
                s\<lparr>s_history := s_history s @
                  [\<lparr>sh_timestamp = replace_second_microsecond now, sh_value = v,
                  sh_limit_min = s_limit_min s, sh_limit_max = s_limit_max s,
                  sh_alarm_min = s_alarm_min s, sh_alarm_max = s_alarm_max s\<rparr>]\<rparr>))
   \<and> (\<not> has_key sh_timestamp b (s_history s)
       \<and> (\<forall>(t, x)\<in>set ((t1, v1) # rs). replace_second_microsecond t = b)
      \<longrightarrow> (\<exists>s'. Sensor_record_all s ((t1, v1) # rs) = Inr s'
            \<and> filter (\<lambda>h. sh_timestamp h = b) (s_history s') =
                [\<lparr>sh_timestamp = b, sh_value = pairwise_average v1 (map snd rs),
                  sh_limit_min = s_limit_min s, sh_limit_max = s_limit_max s,
                  sh_alarm_min = s_alarm_min s, sh_alarm_max = s_alarm_max s\<rparr>]))"
proof (intro conjI allI impI)
  fix d
  assume "first_asc sh_timestamp
          (filter (\<lambda>h. sh_timestamp h = replace_second_microsecond now) (s_history s)) = Some d"
  then show "Sensor_record now s (Some v) =
           Inr (Some (d\<lparr>sh_value := (sh_value d + v) / 2,
                    sh_limit_min := (sh_limit_min d + s_limit_min s) / 2,
                    sh_limit_max := (sh_limit_max d + s_limit_max s) / 2,
                    sh_alarm_min := (sh_alarm_min d + s_alarm_min s) / 2,
                    sh_alarm_max := (sh_alarm_max d + s_alarm_max s) / 2\<rparr>),
                s\<lparr>s_history := update_row sh_timestamp
                  (d\<lparr>sh_value := (sh_value d + v) / 2,
                    sh_limit_min := (sh_limit_min d + s_limit_min s) / 2,
                    sh_limit_max := (sh_limit_max d + s_limit_max s) / 2,
                    sh_alarm_min := (sh_alarm_min d + s_alarm_min s) / 2,
                    sh_alarm_max := (sh_alarm_max d + s_alarm_max s) / 2\<rparr>)
                  (s_history s)\<rparr>)"
    by (rule Sensor_record_merge)
next
  assume "first_asc sh_timestamp
          (filter (\<lambda>h. sh_timestamp h = replace_second_microsecond now) (s_history s)) = None"
  then show "Sensor_record now s (Some v) =
           Inr (Some \<lparr>sh_timestamp = replace_second_microsecond now, sh_value = v,
                  sh_limit_min = s_limit_min s, sh_limit_max = s_limit_max s,
                  sh_alarm_min = s_alarm_min s, sh_alarm_max = s_alarm_max s\<rparr>,
                s\<lparr>s_history := s_history s @
                  [\<lparr>sh_timestamp = replace_second_microsecond now, sh_value = v,
                  sh_limit_min = s_limit_min s, sh_limit_max = s_limit_max s,
                  sh_alarm_min = s_alarm_min s, sh_alarm_max = s_alarm_max s\<rparr>]\<rparr>)"
    by (rule Sensor_record_new)
next
  assume a: "\<not> has_key sh_timestamp b (s_history s)
       \<and> (\<forall>(t, x)\<in>set ((t1, v1) # rs). replace_second_microsecond t = b)"
  then have none: "filter (\<lambda>h. sh_timestamp h = b) (s_history s) = []"
    by (simp add: filter_no_key)
  from a have "Sensor_record_all s ((t1, v1) # rs) =
           Inr (s\<lparr>s_history := s_history s @
                  [\<lparr>sh_timestamp = b, sh_value = pairwise_average v1 (map snd rs),
                    sh_limit_min = s_limit_min s, sh_limit_max = s_limit_max s,
                    sh_alarm_min = s_alarm_min s, sh_alarm_max = s_alarm_max s\<rparr>]\<rparr>)"
    by (intro Sensor_record_all_new_minute) simp_all
  with none show "\<exists>s'. Sensor_record_all s ((t1, v1) # rs) = Inr s'
            \<and> filter (\<lambda>h. sh_timestamp h = b) (s_history s') =
                [\<lparr>sh_timestamp = b, sh_value = pairwise_average v1 (map snd rs),
                  sh_limit_min = s_limit_min s, sh_limit_max = s_limit_max s,
                  sh_alarm_min = s_alarm_min s, sh_alarm_max = s_alarm_max s\<rparr>]"
    by simp
qed

theorem Sensor_update_running_average_witness:
  "\<not> has_key sh_timestamp 60000000 (s_history sample_sensor)
   \<and> replace_second_microsecond 60000001 = 60000000
   \<and> replace_second_microsecond 60000020 = 60000000
   \<and> replace_second_microsecond 119999999 = 60000000
   \<and> Sensor_record_all sample_sensor [(60000001, 10), (60000020, 20), (119999999, 30)]
       = Inr (sample_sensor\<lparr>s_history := [sample_row 60000000 (45 / 2)]\<rparr>)
   \<and> pairwise_average 10 [20, 30] = 45 / 2
   \<and> Sensor_record 60000030 (sample_sensor\<lparr>s_history := [sample_row 60000000 15]\<rparr>) (Some 30)
       = Inr (Some (sample_row 60000000 (45 / 2)),
              sample_sensor\<lparr>s_history := [sample_row 60000000 (45 / 2)]\<rparr>)
   \<and> Sensor_record 60000030 sample_sensor (Some 30)
       = Inr (Some (sample_row 60000000 30),
              sample_sensor\<lparr>s_history := [sample_row 60000000 30]\<rparr>)"
  using Sensor_update_running_average [where now = 60000030
      and s = sample_sensor and v = 30 and b = 60000000 and ?t1.0 = 60000001 and ?v1.0 = 10
      and rs = "[(60000020, 20), (119999999, 30)]"]
    Sensor_update_running_average [where now = 60000030
      and s = "sample_sensor\<lparr>s_history := [sample_row 60000000 15]\<rparr>" and v = 30
      and b = 120000000 and ?t1.0 = 120000001 and ?v1.0 = 10 and rs = "[]"]
  by (simp add: Sensor_record_def Sensor_update_def Let_def Sensor_VALUE_MODE_def
      sample_sensor_def sample_row_def replace_second_microsecond_def pairwise_average_def)

section \<open>Repeated readings\<close>

lemma timedelta_Relay_nonneg: "0 \<le> timedelta Relay_MAX_VALUE_AGE"
  by (simp add: timedelta_def Relay_MAX_VALUE_AGE_def)

lemma timedelta_Button_nonneg: "0 \<le> timedelta Button_MAX_VALUE_AGE"
  by (simp add: timedelta_def Button_MAX_VALUE_AGE_def)

lemma Relay_update_eq:
  "Relay_update now r (Some v) force =
     (if force \<or> Some v \<noteq> Relay_value now r
      then (Some \<lparr>rh_timestamp = now, rh_value = v,
                  rh_wattage = v / 100 * r_wattage r, rh_flow = v / 100 * r_flow r\<rparr>,
            [Insert \<lparr>rh_timestamp = now, rh_value = v,
                  rh_wattage = v / 100 * r_wattage r, rh_flow = v / 100 * r_flow r\<rparr>])
      else (None, []))"
  by (simp add: Relay_update_def Let_def)

lemma Relay_record_eq:
  assumes "\<not> has_key rh_timestamp now (r_history r)"
  shows "Relay_record now r (Some v) force =
     (if force \<or> Some v \<noteq> Relay_value now r
      then Inr (Some \<lparr>rh_timestamp = now, rh_value = v,
                  rh_wattage = v / 100 * r_wattage r, rh_flow = v / 100 * r_flow r\<rparr>,
                r\<lparr>r_history := r_history r @
                   [\<lparr>rh_timestamp = now, rh_value = v,
                     rh_wattage = v / 100 * r_wattage r, rh_flow = v / 100 * r_flow r\<rparr>]\<rparr>)
      else Inr (None, r))"
  using assms by (simp add: Relay_record_def Relay_update_eq)

lemma Relay_record_conflict:
  assumes "has_key rh_timestamp now (r_history r)" and "force \<or> Some v \<noteq> Relay_value now r"
  shows "Relay_record now r (Some v) force = Inl TransactionIntegrityError"
  using assms by (simp add: Relay_record_def Relay_update_eq)

lemma Relay_value_after_insert:
  assumes older: "\<forall>h\<in>set xs. rh_timestamp h < rh_timestamp row"
    and young: "now - rh_timestamp row \<le> timedelta Relay_MAX_VALUE_AGE"
  shows "Relay_value now (r\<lparr>r_history := xs @ [row]\<rparr>) = Some (rh_value row)"
  by (rule Relay_value_latest) (use assms in auto)

lemma Relay_record_again:
  assumes past: "\<forall>h\<in>set (r_history r). rh_timestamp h \<le> now"
    and first: "Relay_record now r (Some v) False = Inr (res, r1)"
  shows "Relay_record now r1 (Some v) False = Inr (None, r1)"
proof (cases "Some v \<noteq> Relay_value now r")
  case True
  let ?row = "\<lparr>rh_timestamp = now, rh_value = v,
                rh_wattage = v / 100 * r_wattage r, rh_flow = v / 100 * r_flow r\<rparr>"
  have nokey: "\<not> has_key rh_timestamp now (r_history r)"
    using Relay_record_conflict [of now r False v] True first by auto
  with True first have r1: "r1 = r\<lparr>r_history := r_history r @ [?row]\<rparr>"
    by (simp add: Relay_record_eq)
  have "\<forall>h\<in>set (r_history r). rh_timestamp h < now"
  proof
    fix h assume h: "h \<in> set (r_history r)"
    with nokey have "rh_timestamp h \<noteq> now" by (auto simp: has_key_iff)
    with past h show "rh_timestamp h < now" by fastforce
  qed
  then have "Relay_value now r1 = Some v"
    unfolding r1 using Relay_value_after_insert [of "r_history r" ?row now r]
    by (simp add: timedelta_Relay_nonneg)
  then show ?thesis
    by (simp add: Relay_record_def Relay_update_eq)
next
  case False
  then have eq: "Relay_value now r = Some v" by simp
  with first have "r1 = r"
    by (simp add: Relay_record_def Relay_update_eq)
  with eq show ?thesis
    by (simp add: Relay_record_def Relay_update_eq)
qed

lemma Button_update_eq:
  "Button_update now b (Some v) force =
     (if force \<or> Some v \<noteq> Button_value now b
      then (Some \<lparr>bh_timestamp = now, bh_value = v\<rparr>, [Insert \<lparr>bh_timestamp = now, bh_value = v\<rparr>])
      else (None, []))"
  by (simp add: Button_update_def Let_def)

lemma Button_record_eq:
  assumes "\<not> has_key bh_timestamp now (b_history b)"
  shows "Button_record now b (Some v) force =
     (if force \<or> Some v \<noteq> Button_value now b
      then Inr (Some \<lparr>bh_timestamp = now, bh_value = v\<rparr>,
                b\<lparr>b_history := b_history b @ [\<lparr>bh_timestamp = now, bh_value = v\<rparr>]\<rparr>)
      else Inr (None, b))"
  using assms by (simp add: Button_record_def Button_update_eq)

lemma Button_record_conflict:
  assumes "has_key bh_timestamp now (b_history b)" and "force \<or> Some v \<noteq> Button_value now b"
  shows "Button_record now b (Some v) force = Inl TransactionIntegrityError"
  using assms by (simp add: Button_record_def Button_update_eq)

lemma Button_value_after_insert:
  assumes older: "\<forall>h\<in>set xs. bh_timestamp h < bh_timestamp row"
    and young: "now - bh_timestamp row \<le> timedelta Button_MAX_VALUE_AGE"
  shows "Button_value now (b\<lparr>b_history := xs @ [row]\<rparr>) = Some (bh_value row)"
  by (rule Button_value_latest) (use assms in auto)

lemma Button_record_again:
  assumes past: "\<forall>h\<in>set (b_history b). bh_timestamp h \<le> now"
    and first: "Button_record now b (Some v) False = Inr (res, b1)"
  shows "Button_record now b1 (Some v) False = Inr (None, b1)"
proof (cases "Some v \<noteq> Button_value now b")
  case True
  let ?row = "\<lparr>bh_timestamp = now, bh_value = v\<rparr>"
  have nokey: "\<not> has_key bh_timestamp now (b_history b)"
    using Button_record_conflict [of now b False v] True first by auto
  with True first have b1: "b1 = b\<lparr>b_history := b_history b @ [?row]\<rparr>"
    by (simp add: Button_record_eq)
  have "\<forall>h\<in>set (b_history b). bh_timestamp h < now"
  proof
    fix h assume h: "h \<in> set (b_history b)"
    with nokey have "bh_timestamp h \<noteq> now" by (auto simp: has_key_iff)
    with past h show "bh_timestamp h < now" by fastforce
  qed
  then have "Button_value now b1 = Some v"
    unfolding b1 using Button_value_after_insert [of "b_history b" ?row now b]
    by (simp add: timedelta_Button_nonneg)
  then show ?thesis
    by (simp add: Button_record_def Button_update_eq)
next
  case False
  then have eq: "Button_value now b = Some v" by simp
  with first have "b1 = b"
    by (simp add: Button_record_def Button_update_eq)
  with eq show ?thesis
    by (simp add: Button_record_def Button_update_eq)
qed

lemma Sensor_record_unchanged:
  assumes probe: "first_asc sh_timestamp
      (filter (\<lambda>h. sh_timestamp h = replace_second_microsecond now) (s_history s)) = Some d"
    and same: "sh_value d = v" "sh_limit_min d = s_limit_min s" "sh_limit_max d = s_limit_max s"
      "sh_alarm_min d = s_alarm_min s" "sh_alarm_max d = s_alarm_max s"
  shows "Sensor_record now s (Some v) = Inr (Some d, s)"
proof -
  have merged: "d\<lparr>sh_value := (sh_value d + v) / 2,
                    sh_limit_min := (sh_limit_min d + s_limit_min s) / 2,
                    sh_limit_max := (sh_limit_max d + s_limit_max s) / 2,
                    sh_alarm_min := (sh_alarm_min d + s_alarm_min s) / 2,
                    sh_alarm_max := (sh_alarm_max d + s_alarm_max s) / 2\<rparr> = d"
    using same by simp
  show ?thesis
    unfolding Sensor_record_merge [OF probe] merged
    by (simp add: update_row_found [OF probe])
qed

lemma Sensor_record_again:
  assumes new: "\<not> has_key sh_timestamp (replace_second_microsecond t1) (s_history s)"
    and minute: "replace_second_microsecond t2 = replace_second_microsecond t1"
  shows "\<exists>row s1. Sensor_record t1 s (Some v) = Inr (Some row, s1)
           \<and> Sensor_record t2 s1 (Some v) = Inr (Some row, s1) \<and> sh_value row = v"
proof -
  let ?d = "\<lparr>sh_timestamp = replace_second_microsecond t1, sh_value = v,
              sh_limit_min = s_limit_min s, sh_limit_max = s_limit_max s,
              sh_alarm_min = s_alarm_min s, sh_alarm_max = s_alarm_max s\<rparr>"
  let ?s = "s\<lparr>s_history := s_history s @ [?d]\<rparr>"
  have probe1: "first_asc sh_timestamp
      (filter (\<lambda>h. sh_timestamp h = replace_second_microsecond t1) (s_history s)) = None"
    using new by (simp add: first_asc_filter_None)
  have first: "Sensor_record t1 s (Some v) = Inr (Some ?d, ?s)"
    by (rule Sensor_record_new [OF probe1])
  have probe2: "first_asc sh_timestamp
      (filter (\<lambda>h. sh_timestamp h = replace_second_microsecond t2) (s_history ?s)) = Some ?d"
    unfolding minute using probe_snoc [of sh_timestamp "replace_second_microsecond t1" "s_history s" ?d] new
    by simp
  have second: "Sensor_record t2 ?s (Some v) = Inr (Some ?d, ?s)"
    by (rule Sensor_record_unchanged [OF probe2]) simp_all
  from first second show ?thesis by simp
qed

text \<open>
  Claim C5 says that recording the same value twice in the same bucket, without force,
  leaves the same stored row as recording it once. For a sensor this fails when the
  minute already holds another value: the first call averages the stored value with the
  reading, and the second call averages again. With 10 stored, the reading 20 gives 15
  once and 17.5 twice.
\<close>

theorem record_twice_counterexample:
  "Sensor_record 60000030 (sample_sensor\<lparr>s_history := [sample_row 60000000 10]\<rparr>) (Some 20)
     = Inr (Some (sample_row 60000000 15),
            sample_sensor\<lparr>s_history := [sample_row 60000000 15]\<rparr>)
   \<and> Sensor_record 60000040 (sample_sensor\<lparr>s_history := [sample_row 60000000 15]\<rparr>) (Some 20)
     = Inr (Some (sample_row 60000000 (35 / 2)),
            sample_sensor\<lparr>s_history := [sample_row 60000000 (35 / 2)]\<rparr>)
   \<and> replace_second_microsecond 60000040 = replace_second_microsecond 60000030
   \<and> sample_row 60000000 (35 / 2) \<noteq> sample_row 60000000 15"
  by (simp add: Sensor_record_def Sensor_update_def Let_def Sensor_VALUE_MODE_def
      sample_sensor_def sample_row_def replace_second_microsecond_def)

text \<open>
  Claim C5, amended. Recording the same value twice in the same timestamp bucket,
  without force, leaves the ledger as one recording does in these cases. For a relay and
  for a button whose rows are not later than \<open>now\<close>, the second call is a no-op: it
  returns none and changes nothing. For a sensor whose minute had no row, the second call
  returns the row of the first and changes nothing, and the stored value is the reading;
  more generally a reading equal to the stored value of the minute, under unchanged
  thresholds, changes nothing.
\<close>

theorem record_twice_same_bucket:
  "((\<forall>h\<in>set (r_history r). rh_timestamp h \<le> now)
      \<and> Relay_record now r (Some v) False = Inr (res_r, r1)
     \<longrightarrow> Relay_record now r1 (Some v) False = Inr (None, r1))
   \<and> ((\<forall>h\<in>set (b_history b). bh_timestamp h \<le> now)
      \<and> Button_record now b (Some v) False = Inr (res_b, b1)
     \<longrightarrow> Button_record now b1 (Some v) False = Inr (None, b1))
   \<and> (\<not> has_key sh_timestamp (replace_second_microsecond t1) (s_history s)
      \<and> replace_second_microsecond t2 = replace_second_microsecond t1
     \<longrightarrow> (\<exists>row s1. Sensor_record t1 s (Some v) = Inr (Some row, s1)
           \<and> Sensor_record t2 s1 (Some v) = Inr (Some row, s1) \<and> sh_value row = v))
   \<and> (first_asc sh_timestamp
        (filter (\<lambda>h. sh_timestamp h = replace_second_microsecond now) (s_history s)) = Some d
      \<and> sh_value d = v \<and> sh_limit_min d = s_limit_min s \<and> sh_limit_max d = s_limit_max s
      \<and> sh_alarm_min d = s_alarm_min s \<and> sh_alarm_max d = s_alarm_max s
     \<longrightarrow> Sensor_record now s (Some v) = Inr (Some d, s))"
  using Relay_record_again [of r now v res_r r1] Button_record_again [of b now v res_b b1]
    Sensor_record_again [of t1 s t2 v] Sensor_record_unchanged [of now s d v]
  by (intro conjI impI) (elim conjE, assumption | simp)+

theorem record_twice_same_bucket_witness:
  "Relay_record 5000000 sample_relay (Some 100) False
     = Inr (Some \<lparr>rh_timestamp = 5000000, rh_value = 100, rh_wattage = 60, rh_flow = 2\<rparr>,
            sample_relay\<lparr>r_history :=
              [\<lparr>rh_timestamp = 5000000, rh_value = 100, rh_wattage = 60, rh_flow = 2\<rparr>]\<rparr>)
   \<and> Relay_record 5000000
       (sample_relay\<lparr>r_history :=
              [\<lparr>rh_timestamp = 5000000, rh_value = 100, rh_wattage = 60, rh_flow = 2\<rparr>]\<rparr>)
       (Some 100) False
     = Inr (None, sample_relay\<lparr>r_history :=
              [\<lparr>rh_timestamp = 5000000, rh_value = 100, rh_wattage = 60, rh_flow = 2\<rparr>]\<rparr>)
   \<and> Button_record 5000000 sample_button (Some 100) False
     = Inr (Some \<lparr>bh_timestamp = 5000000, bh_value = 100\<rparr>,
            sample_button\<lparr>b_history := [\<lparr>bh_timestamp = 5000000, bh_value = 100\<rparr>]\<rparr>)
   \<and> Button_record 5000000
       (sample_button\<lparr>b_history := [\<lparr>bh_timestamp = 5000000, bh_value = 100\<rparr>]\<rparr>)
       (Some 100) False
     = Inr (None, sample_button\<lparr>b_history := [\<lparr>bh_timestamp = 5000000, bh_value = 100\<rparr>]\<rparr>)
   \<and> \<not> has_key sh_timestamp (replace_second_microsecond 60000001)
         (s_history (sample_sensor\<lparr>s_history := [sample_row 0 100]\<rparr>))
   \<and> replace_second_microsecond 60000030 = replace_second_microsecond 60000001
   \<and> Sensor_record 60000001 (sample_sensor\<lparr>s_history := [sample_row 0 100]\<rparr>) (Some 100)
     = Inr (Some (sample_row 60000000 100),
            sample_sensor\<lparr>s_history := [sample_row 0 100, sample_row 60000000 100]\<rparr>)
   \<and> Sensor_record 60000030
       (sample_sensor\<lparr>s_history := [sample_row 0 100, sample_row 60000000 100]\<rparr>) (Some 100)
     = Inr (Some (sample_row 60000000 100),
            sample_sensor\<lparr>s_history := [sample_row 0 100, sample_row 60000000 100]\<rparr>)
   \<and> Sensor_record 5000000 (sample_sensor\<lparr>s_history := [sample_row 0 100]\<rparr>) (Some 100)
     = Inr (Some (sample_row 0 100), sample_sensor\<lparr>s_history := [sample_row 0 100]\<rparr>)"
  using record_twice_same_bucket [where now = 5000000 and v = 100
      and r = sample_relay
      and res_r = "Some \<lparr>rh_timestamp = 5000000, rh_value = 100, rh_wattage = 60, rh_flow = 2\<rparr>"
      and ?r1.0 = "sample_relay\<lparr>r_history :=
              [\<lparr>rh_timestamp = 5000000, rh_value = 100, rh_wattage = 60, rh_flow = 2\<rparr>]\<rparr>"
      and b = sample_button
      and res_b = "Some \<lparr>bh_timestamp = 5000000, bh_value = 100\<rparr>"
      and ?b1.0 = "sample_button\<lparr>b_history := [\<lparr>bh_timestamp = 5000000, bh_value = 100\<rparr>]\<rparr>"
      and s = "sample_sensor\<lparr>s_history := [sample_row 0 100]\<rparr>"
      and ?t1.0 = 60000001 and ?t2.0 = 60000030 and d = "sample_row 0 100"]
  by (simp add: Relay_record_def Relay_update_def Relay_value_def Button_record_def
      Button_update_def Button_value_def Sensor_record_def Sensor_update_def Let_def
      Sensor_VALUE_MODE_def sample_relay_def sample_button_def sample_sensor_def
      sample_row_def replace_second_microsecond_def timedelta_def Relay_MAX_VALUE_AGE_def
      Button_MAX_VALUE_AGE_def)

section \<open>Relay readings\<close>

lemma Relay_record_twice_unforced:
  assumes past: "\<forall>h\<in>set (r_history r). rh_timestamp h < t1"
    and order: "t1 \<le> t2" "t2 - t1 \<le> timedelta Relay_MAX_VALUE_AGE"
    and change: "Relay_value t1 r \<noteq> Some v"
  shows "Relay_record t1 r (Some v) False =
           Inr (Some \<lparr>rh_timestamp = t1, rh_value = v,
                  rh_wattage = v / 100 * r_wattage r, rh_flow = v / 100 * r_flow r\<rparr>,
                r\<lparr>r_history := r_history r @
                   [\<lparr>rh_timestamp = t1, rh_value = v,
                     rh_wattage = v / 100 * r_wattage r, rh_flow = v / 100 * r_flow r\<rparr>]\<rparr>)
         \<and> Relay_record t2
             (r\<lparr>r_history := r_history r @
                   [\<lparr>rh_timestamp = t1, rh_value = v,
                     rh_wattage = v / 100 * r_wattage r, rh_flow = v / 100 * r_flow r\<rparr>]\<rparr>)
             (Some v) False =
           Inr (None, r\<lparr>r_history := r_history r @
                   [\<lparr>rh_timestamp = t1, rh_value = v,
                     rh_wattage = v / 100 * r_wattage r, rh_flow = v / 100 * r_flow r\<rparr>]\<rparr>)"
proof -
  let ?row = "\<lparr>rh_timestamp = t1, rh_value = v,
                rh_wattage = v / 100 * r_wattage r, rh_flow = v / 100 * r_flow r\<rparr>"
  let ?r1 = "r\<lparr>r_history := r_history r @ [?row]\<rparr>"
  have nokey: "\<not> has_key rh_timestamp t1 (r_history r)"
    using past by (auto simp: has_key_iff)
  from change have "Some v \<noteq> Relay_value t1 r" by auto
  with nokey have first: "Relay_record t1 r (Some v) False = Inr (Some ?row, ?r1)"
    by (simp add: Relay_record_eq)
  have "Relay_value t2 ?r1 = Some (rh_value ?row)"
    by (rule Relay_value_after_insert) (use past order in simp_all)
  then have second: "Relay_record t2 ?r1 (Some v) False = Inr (None, ?r1)"
    by (simp add: Relay_record_def Relay_update_eq)
  from first second show ?thesis by simp
qed

lemma Relay_record_twice_forced:
  assumes past: "\<forall>h\<in>set (r_history r). rh_timestamp h < t1"
    and order: "t1 < t2"
  shows "Relay_record t1 r (Some v) True =
           Inr (Some \<lparr>rh_timestamp = t1, rh_value = v,
                  rh_wattage = v / 100 * r_wattage r, rh_flow = v / 100 * r_flow r\<rparr>,
                r\<lparr>r_history := r_history r @
                   [\<lparr>rh_timestamp = t1, rh_value = v,
                     rh_wattage = v / 100 * r_wattage r, rh_flow = v / 100 * r_flow r\<rparr>]\<rparr>)
         \<and> Relay_record t2
             (r\<lparr>r_history := r_history r @
                   [\<lparr>rh_timestamp = t1, rh_value = v,
                     rh_wattage = v / 100 * r_wattage r, rh_flow = v / 100 * r_flow r\<rparr>]\<rparr>)
             (Some v) True =
           Inr (Some \<lparr>rh_timestamp = t2, rh_value = v,
                  rh_wattage = v / 100 * r_wattage r, rh_flow = v / 100 * r_flow r\<rparr>,
                r\<lparr>r_history := r_history r @
                   [\<lparr>rh_timestamp = t1, rh_value = v,
                     rh_wattage = v / 100 * r_wattage r, rh_flow = v / 100 * r_flow r\<rparr>,
                    \<lparr>rh_timestamp = t2, rh_value = v,
                     rh_wattage = v / 100 * r_wattage r, rh_flow = v / 100 * r_flow r\<rparr>]\<rparr>)"
proof -
  let ?row = "\<lparr>rh_timestamp = t1, rh_value = v,
                rh_wattage = v / 100 * r_wattage r, rh_flow = v / 100 * r_flow r\<rparr>"
  let ?r1 = "r\<lparr>r_history := r_history r @ [?row]\<rparr>"
  have nokey1: "\<not> has_key rh_timestamp t1 (r_history r)"
    using past by (auto simp: has_key_iff)
  have nokey2: "\<not> has_key rh_timestamp t2 (r_history ?r1)"
    using past order by (auto simp: has_key_iff)
  show ?thesis
    using Relay_record_eq [OF nokey1, of v True] Relay_record_eq [OF nokey2, of v True]
    by simp
qed

text \<open>
  Claim C2. For a non-null reading, \<open>Relay.update\<close> builds and returns a row at the
  untruncated time \<open>now\<close> with the reading as value, reading / 100 * wattage as wattage
  and reading / 100 * flow as flow when force is set or the reading differs from the
  current value, and otherwise does nothing and returns none; the row is appended to the
  ledger when no row has the timestamp \<open>now\<close>. Hence, on a relay whose rows are older
  than the first call and whose current value differs from the reading, two calls with
  the same reading and without force, the second at most 3900 seconds after the first,
  add exactly one row; with force, two calls at different times add two rows.
\<close>

theorem Relay_update_on_change_or_force:
  "Relay_update now r (Some v) force =
     (if force \<or> Some v \<noteq> Relay_value now r
      then (Some \<lparr>rh_timestamp = now, rh_value = v,
                  rh_wattage = v / 100 * r_wattage r, rh_flow = v / 100 * r_flow r\<rparr>,
            [Insert \<lparr>rh_timestamp = now, rh_value = v,
                  rh_wattage = v / 100 * r_wattage r, rh_flow = v / 100 * r_flow r\<rparr>])
      else (None, []))
   \<and> (\<not> has_key rh_timestamp now (r_history r) \<longrightarrow>
        Relay_record now r (Some v) force =
          (if force \<or> Some v \<noteq> Relay_value now r
           then Inr (Some \<lparr>rh_timestamp = now, rh_value = v,
                  rh_wattage = v / 100 * r_wattage r, rh_flow = v / 100 * r_flow r\<rparr>,
                r\<lparr>r_history := r_history r @
                   [\<lparr>rh_timestamp = now, rh_value = v,
                     rh_wattage = v / 100 * r_wattage r, rh_flow = v / 100 * r_flow r\<rparr>]\<rparr>)
           else Inr (None, r)))
   \<and> ((\<forall>h\<in>set (r_history r). rh_timestamp h < t1) \<and> t1 \<le> t2
        \<and> t2 - t1 \<le> timedelta Relay_MAX_VALUE_AGE \<and> Relay_value t1 r \<noteq> Some v \<longrightarrow>
        (\<exists>row r1. Relay_record t1 r (Some v) False = Inr (Some row, r1)
           \<and> Relay_record t2 r1 (Some v) False = Inr (None, r1)
           \<and> r_history r1 = r_history r @ [row]))
   \<and> ((\<forall>h\<in>set (r_history r). rh_timestamp h < t1) \<and> t1 < t2 \<longrightarrow>
        (\<exists>row1 row2 r1 r2. Relay_record t1 r (Some v) True = Inr (Some row1, r1)
           \<and> Relay_record t2 r1 (Some v) True = Inr (Some row2, r2)
           \<and> r_history r2 = r_history r @ [row1, row2]))"
proof (intro conjI impI)
  show "Relay_update now r (Some v) force =
     (if force \<or> Some v \<noteq> Relay_value now r
      then (Some \<lparr>rh_timestamp = now, rh_value = v,
                  rh_wattage = v / 100 * r_wattage r, rh_flow = v / 100 * r_flow r\<rparr>,
            [Insert \<lparr>rh_timestamp = now, rh_value = v,
                  rh_wattage = v / 100 * r_wattage r, rh_flow = v / 100 * r_flow r\<rparr>])
      else (None, []))"
    by (rule Relay_update_eq)
next
  assume "\<not> has_key rh_timestamp now (r_history r)"
  then show "Relay_record now r (Some v) force =
          (if force \<or> Some v \<noteq> Relay_value now r
           then Inr (Some \<lparr>rh_timestamp = now, rh_value = v,
                  rh_wattage = v / 100 * r_wattage r, rh_flow = v / 100 * r_flow r\<rparr>,
                r\<lparr>r_history := r_history r @
                   [\<lparr>rh_timestamp = now, rh_value = v,
                     rh_wattage = v / 100 * r_wattage r, rh_flow = v / 100 * r_flow r\<rparr>]\<rparr>)
           else Inr (None, r))"
    by (rule Relay_record_eq)
next
  assume "(\<forall>h\<in>set (r_history r). rh_timestamp h < t1) \<and> t1 \<le> t2
        \<and> t2 - t1 \<le> timedelta Relay_MAX_VALUE_AGE \<and> Relay_value t1 r \<noteq> Some v"
  then show "\<exists>row r1. Relay_record t1 r (Some v) False = Inr (Some row, r1)
           \<and> Relay_record t2 r1 (Some v) False = Inr (None, r1)
           \<and> r_history r1 = r_history r @ [row]"
    using Relay_record_twice_unforced [of r t1 t2 v] by simp
next
  assume "(\<forall>h\<in>set (r_history r). rh_timestamp h < t1) \<and> t1 < t2"
  then show "\<exists>row1 row2 r1 r2. Relay_record t1 r (Some v) True = Inr (Some row1, r1)
           \<and> Relay_record t2 r1 (Some v) True = Inr (Some row2, r2)
           \<and> r_history r2 = r_history r @ [row1, row2]"
    using Relay_record_twice_forced [of r t1 t2 v] by simp
qed

theorem Relay_update_on_change_or_force_witness:
  "\<not> has_key rh_timestamp 5000000 (r_history sample_relay)
   \<and> (5000000::int) < 35000000
   \<and> 35000000 - 5000000 \<le> timedelta Relay_MAX_VALUE_AGE
   \<and> Relay_value 5000000 sample_relay = None
   \<and> Relay_record 5000000 sample_relay (Some 50) False
       = Inr (Some \<lparr>rh_timestamp = 5000000, rh_value = 50, rh_wattage = 30, rh_flow = 1\<rparr>,
              sample_relay\<lparr>r_history :=
                [\<lparr>rh_timestamp = 5000000, rh_value = 50, rh_wattage = 30, rh_flow = 1\<rparr>]\<rparr>)
   \<and> Relay_record 35000000
       (sample_relay\<lparr>r_history :=
                [\<lparr>rh_timestamp = 5000000, rh_value = 50, rh_wattage = 30, rh_flow = 1\<rparr>]\<rparr>)
       (Some 50) False
       = Inr (None, sample_relay\<lparr>r_history :=
                [\<lparr>rh_timestamp = 5000000, rh_value = 50, rh_wattage = 30, rh_flow = 1\<rparr>]\<rparr>)
   \<and> Relay_record 35000000
       (sample_relay\<lparr>r_history :=
                [\<lparr>rh_timestamp = 5000000, rh_value = 50, rh_wattage = 30, rh_flow = 1\<rparr>]\<rparr>)
       (Some 50) True
       = Inr (Some \<lparr>rh_timestamp = 35000000, rh_value = 50, rh_wattage = 30, rh_flow = 1\<rparr>,
              sample_relay\<lparr>r_history :=
                [\<lparr>rh_timestamp = 5000000, rh_value = 50, rh_wattage = 30, rh_flow = 1\<rparr>,
                 \<lparr>rh_timestamp = 35000000, rh_value = 50, rh_wattage = 30, rh_flow = 1\<rparr>]\<rparr>)"
  using Relay_update_on_change_or_force [where now = 5000000 and r = sample_relay
      and v = 50 and force = False and ?t1.0 = 5000000 and ?t2.0 = 35000000]
  by (simp add: Relay_record_def Relay_update_def Relay_value_def Let_def sample_relay_def
      timedelta_def Relay_MAX_VALUE_AGE_def)

section \<open>Uniqueness of the minute of a sensor\<close>

lemma Sensor_record_total: "\<exists>res s'. Sensor_record now s reading = Inr (res, s')"
proof (cases reading)
  case None
  then show ?thesis by (simp add: Sensor_record_None)
next
  case (Some v)
  show ?thesis
  proof (cases "first_asc sh_timestamp
      (filter (\<lambda>h. sh_timestamp h = replace_second_microsecond now) (s_history s))")
    case None
    then show ?thesis unfolding Some by (simp add: Sensor_record_new)
  next
    case (Some d)
    then show ?thesis unfolding \<open>reading = Some v\<close> by (simp add: Sensor_record_merge)
  qed
qed

text \<open>
  Claim C6 says that a second reading for a minute that has a row never surfaces as a
  uniqueness violation, and that a conflict reported by the storage is retried as an
  update. The module has no such retry. When the row of the minute appears in the table
  after the probe of \<open>Sensor.update\<close> (another writer committed it), the insert that the
  call decided on is refused and the error is what the caller gets.
\<close>

theorem Sensor_update_conflict_counterexample:
  "Sensor_update 60000030 sample_sensor (Some 30)
     = (Some (sample_row 60000000 30), [Insert (sample_row 60000000 30)])
   \<and> commit sh_timestamp (snd (Sensor_update 60000030 sample_sensor (Some 30)))
       [sample_row 60000000 10] = Inl TransactionIntegrityError
   \<and> commit sh_timestamp (snd (Sensor_update 60000030 sample_sensor (Some 30)))
       [sample_row 60000000 10] \<noteq> Inr [sample_row 60000000 20]"
  by (simp add: Sensor_update_def Let_def Sensor_VALUE_MODE_def sample_sensor_def
      sample_row_def replace_second_microsecond_def)

text \<open>
  Claim C6, amended. \<open>Sensor.update\<close> probes for the row of the minute before it writes:
  with the row found it only updates that row, so a call committed to the table it
  probed never fails, whatever the reading and the history. There is no retry: when the
  probe found no row and the table has a row for the minute at commit time, the insert
  fails with the integrity error of the storage.
\<close>

theorem Sensor_update_probe_then_merge:
  "(\<exists>res s'. Sensor_record now s reading = Inr (res, s'))
   \<and> (\<forall>d. first_asc sh_timestamp
          (filter (\<lambda>h. sh_timestamp h = replace_second_microsecond now) (s_history s)) = Some d
        \<longrightarrow> (\<exists>d'. Sensor_update now s (Some v) = (Some d', [Update d'])
               \<and> sh_timestamp d' = sh_timestamp d))
   \<and> (first_asc sh_timestamp
          (filter (\<lambda>h. sh_timestamp h = replace_second_microsecond now) (s_history s)) = None
        \<and> has_key sh_timestamp (replace_second_microsecond now) tbl
        \<longrightarrow> commit sh_timestamp (snd (Sensor_update now s (Some v))) tbl
              = Inl TransactionIntegrityError)"
proof (intro conjI allI impI)
  show "\<exists>res s'. Sensor_record now s reading = Inr (res, s')"
    by (rule Sensor_record_total)
next
  fix d
  assume "first_asc sh_timestamp
          (filter (\<lambda>h. sh_timestamp h = replace_second_microsecond now) (s_history s)) = Some d"
  then show "\<exists>d'. Sensor_update now s (Some v) = (Some d', [Update d'])
               \<and> sh_timestamp d' = sh_timestamp d"
    by (simp add: Sensor_update_merge)
next
  assume "first_asc sh_timestamp
          (filter (\<lambda>h. sh_timestamp h = replace_second_microsecond now) (s_history s)) = None
        \<and> has_key sh_timestamp (replace_second_microsecond now) tbl"
  then show "commit sh_timestamp (snd (Sensor_update now s (Some v))) tbl
              = Inl TransactionIntegrityError"
    by (simp add: Sensor_update_new)
qed

theorem Sensor_update_probe_then_merge_witness:
  "Sensor_record 60000030 (sample_sensor\<lparr>s_history := [sample_row 60000000 10]\<rparr>) (Some 30)
     = Inr (Some (sample_row 60000000 20),
            sample_sensor\<lparr>s_history := [sample_row 60000000 20]\<rparr>)
   \<and> Sensor_update 60000030 (sample_sensor\<lparr>s_history := [sample_row 60000000 10]\<rparr>) (Some 30)
     = (Some (sample_row 60000000 20), [Update (sample_row 60000000 20)])
   \<and> first_asc sh_timestamp
       (filter (\<lambda>h. sh_timestamp h = replace_second_microsecond 60000030)
          (s_history sample_sensor)) = None
   \<and> has_key sh_timestamp (replace_second_microsecond 60000030) [sample_row 60000000 10]
   \<and> commit sh_timestamp (snd (Sensor_update 60000030 sample_sensor (Some 30)))
       [sample_row 60000000 10] = Inl TransactionIntegrityError"
  using Sensor_update_probe_then_merge [where now = 60000030
      and s = "sample_sensor\<lparr>s_history := [sample_row 60000000 10]\<rparr>"
      and reading = "Some 30" and v = 30 and tbl = "[sample_row 60000000 10]"]
    Sensor_update_probe_then_merge [where now = 60000030 and s = sample_sensor
      and reading = "Some 30" and v = 30 and tbl = "[sample_row 60000000 10]"]
  by (simp add: Sensor_record_def Sensor_update_def Let_def Sensor_VALUE_MODE_def
      sample_sensor_def sample_row_def replace_second_microsecond_def)

section \<open>The image of an enclosure\<close>

lemma endswith_map_split:
  assumes "endswith (map f s) (a @ b)"
  shows "\<exists>p u x. s = p @ u @ x \<and> map f u = a \<and> map f x = b"
proof -
  let ?n = "length s - length (a @ b)"
  from assms have "map f (drop ?n s) = a @ b"
    by (simp add: endswith_def drop_map)
  then obtain u x where "drop ?n s = u @ x" "map f u = a" "map f x = b"
    by (auto simp: map_eq_append_conv)
  moreover have "s = take ?n s @ drop ?n s" by simp
  ultimately show ?thesis by metis
qed

lemma lower_append: "lower (a @ b) = lower a @ lower b"
  by (simp add: lower_def)

lemma lower_dot_extension:
  assumes "ext \<in> set image_extensions"
  shows "lower (''.'' @ ext) = ''.'' @ ext"
  using assms by (auto simp: image_extensions_def lower_def ascii_lower_def)

lemma rename_regex_search_split:
  assumes "rename_regex_search ident s"
  shows "\<exists>p u x. s = p @ u @ x \<and> lower u = lower ident
           \<and> (\<exists>ext\<in>set image_extensions.
                 lower x = ''.'' @ ext \<or> lower x = ''.'' @ ext @ [CHR 0x0A])"
proof -
  from assms obtain ext where ext: "ext \<in> set image_extensions"
    and m: "endswith (lower s) (lower (ident @ ''.'' @ ext))
            \<or> endswith (lower s) (lower (ident @ ''.'' @ ext) @ [CHR 0x0A])"
    by (auto simp: rename_regex_search_def list_ex_iff)
  have pat: "lower (ident @ ''.'' @ ext) = lower ident @ (''.'' @ ext)"
    using lower_dot_extension [OF ext] lower_append [of ident "''.'' @ ext"] by simp
  from m show ?thesis
  proof
    assume "endswith (lower s) (lower (ident @ ''.'' @ ext))"
    then have "endswith (map ascii_lower s) (lower ident @ (''.'' @ ext))"
      by (simp only: pat) (simp add: lower_def)
    from endswith_map_split [OF this] ext show ?thesis
      by (fastforce simp: lower_def)
  next
    assume "endswith (lower s) (lower (ident @ ''.'' @ ext) @ [CHR 0x0A])"
    then have "endswith (map ascii_lower s) (lower ident @ (''.'' @ ext @ [CHR 0x0A]))"
      by (simp only: pat) (simp add: lower_def)
    from endswith_map_split [OF this] ext show ?thesis
      by (fastforce simp: lower_def)
  qed
qed

lemma endswith_append: "endswith (p @ q) q"
  by (simp add: endswith_def)

lemma Enclosure_rename_image_kept:
  assumes "rename_regex_search (e_id e) (e_image e)"
  shows "Enclosure_rename_image rename fs e = Inr (fs, e)"
  using assms by (simp add: Enclosure_rename_image_def)

lemma Enclosure_rename_image_renamed:
  assumes "\<not> rename_regex_search (e_id e) (e_image e)"
  shows "Enclosure_rename_image rename fs e =
           (case rename fs (Path_str (e_image e))
                   (Path_parent (e_image e) @ ''/'' @ e_id e @ Path_suffix (e_image e)) of
              Inl err \<Rightarrow> Inl err
            | Inr fs' \<Rightarrow>
                Inr (fs', e\<lparr>e_image := Path_parent (e_image e) @ ''/'' @ e_id e
                                          @ Path_suffix (e_image e)\<rparr>))"
  using assms by (simp add: Enclosure_rename_image_def Let_def split: sum.split)

text \<open>
  Claim C8 says that after every insert and update the stored image path ends with the
  id of the enclosure followed by the extension of the image. The pattern of the hook is
  matched without regard to letter case, so an image already named after the id in
  upper-case letters is kept as it is: its path does not end with the id.
\<close>

theorem Enclosure_rename_image_counterexample:
  "Enclosure_before_insert os_rename [''/img/123E4567-E89B-12D3-A456-426614174000.jpg'']
     (sample_enclosure\<lparr>e_image := ''/img/123E4567-E89B-12D3-A456-426614174000.jpg''\<rparr>)
     = Inr ([''/img/123E4567-E89B-12D3-A456-426614174000.jpg''],
            sample_enclosure\<lparr>e_image := ''/img/123E4567-E89B-12D3-A456-426614174000.jpg''\<rparr>)
   \<and> e_id sample_enclosure = ''123e4567-e89b-12d3-a456-426614174000''
   \<and> Path_suffix ''/img/123E4567-E89B-12D3-A456-426614174000.jpg'' = ''.jpg''
   \<and> \<not> endswith ''/img/123E4567-E89B-12D3-A456-426614174000.jpg''
         (e_id sample_enclosure @ Path_suffix ''/img/123E4567-E89B-12D3-A456-426614174000.jpg'')"
  by code_simp

text \<open>
  Claim C8, amended. The hooks before insert and before update both run the renaming of
  the image. When the hook completes, either the image path already ended with the id, a
  dot and one of jpg, jpeg, gif, png (letters compared without regard to case, one final
  newline allowed) and nothing changes, or the file has been renamed and the stored path
  is the parent directory, a slash, the id and the suffix of the old path, and so ends
  with the id followed by the old extension. When the renaming fails, so does the hook.
\<close>

theorem Enclosure_image_named_after_id:
  "Enclosure_before_insert rename fs e = Enclosure_rename_image rename fs e
   \<and> Enclosure_before_update rename fs e = Enclosure_rename_image rename fs e
   \<and> (Enclosure_rename_image rename fs e = Inr (fs', e') \<longrightarrow>
        e_id e' = e_id e
        \<and> ((e' = e \<and> fs' = fs
             \<and> (\<exists>p u x. e_image e' = p @ u @ x \<and> lower u = lower (e_id e)
                  \<and> (\<exists>ext\<in>set image_extensions.
                        lower x = ''.'' @ ext \<or> lower x = ''.'' @ ext @ [CHR 0x0A])))
           \<or> (\<not> rename_regex_search (e_id e) (e_image e)
              \<and> rename fs (Path_str (e_image e)) (e_image e') = Inr fs'
              \<and> e_image e' = Path_parent (e_image e) @ ''/'' @ e_id e @ Path_suffix (e_image e)
              \<and> endswith (e_image e') (e_id e @ Path_suffix (e_image e)))))
   \<and> (\<not> rename_regex_search (e_id e) (e_image e)
        \<and> rename fs (Path_str (e_image e))
             (Path_parent (e_image e) @ ''/'' @ e_id e @ Path_suffix (e_image e)) = Inl err
       \<longrightarrow> Enclosure_rename_image rename fs e = Inl err)"
proof (intro conjI impI)
  show "Enclosure_before_insert rename fs e = Enclosure_rename_image rename fs e"
    by (simp add: Enclosure_before_insert_def)
  show "Enclosure_before_update rename fs e = Enclosure_rename_image rename fs e"
    by (simp add: Enclosure_before_update_def)
next
  assume ok: "Enclosure_rename_image rename fs e = Inr (fs', e')"
  then show "e_id e' = e_id e"
    by (auto simp: Enclosure_rename_image_def Let_def split: if_splits sum.splits)
  show "(e' = e \<and> fs' = fs
             \<and> (\<exists>p u x. e_image e' = p @ u @ x \<and> lower u = lower (e_id e)
                  \<and> (\<exists>ext\<in>set image_extensions.
                        lower x = ''.'' @ ext \<or> lower x = ''.'' @ ext @ [CHR 0x0A])))
           \<or> (\<not> rename_regex_search (e_id e) (e_image e)
              \<and> rename fs (Path_str (e_image e)) (e_image e') = Inr fs'
              \<and> e_image e' = Path_parent (e_image e) @ ''/'' @ e_id e @ Path_suffix (e_image e)
              \<and> endswith (e_image e') (e_id e @ Path_suffix (e_image e)))"
  proof (cases "rename_regex_search (e_id e) (e_image e)")
    case True
    with ok have "e' = e" "fs' = fs"
      by (simp_all add: Enclosure_rename_image_kept)
    with rename_regex_search_split [OF True] show ?thesis by simp
  next
    case False
    let ?name = "Path_parent (e_image e) @ ''/'' @ e_id e @ Path_suffix (e_image e)"
    from ok False have r: "rename fs (Path_str (e_image e)) ?name = Inr fs'"
      and e': "e' = e\<lparr>e_image := ?name\<rparr>"
      by (auto simp: Enclosure_rename_image_renamed split: sum.splits)
    have "endswith ?name (e_id e @ Path_suffix (e_image e))"
      using endswith_append [of "Path_parent (e_image e) @ ''/''" "e_id e @ Path_suffix (e_image e)"]
      by simp
    with False r e' show ?thesis by simp
  qed
next
  assume "\<not> rename_regex_search (e_id e) (e_image e)
        \<and> rename fs (Path_str (e_image e))
             (Path_parent (e_image e) @ ''/'' @ e_id e @ Path_suffix (e_image e)) = Inl err"
  then show "Enclosure_rename_image rename fs e = Inl err"
    by (simp add: Enclosure_rename_image_renamed)
qed

theorem Enclosure_image_named_after_id_witness:
  "Enclosure_rename_image os_rename [''media/upload.png''] sample_enclosure
     = Inr ([''media/123e4567-e89b-12d3-a456-426614174000.png''],
            sample_enclosure\<lparr>e_image := ''media/123e4567-e89b-12d3-a456-426614174000.png''\<rparr>)
   \<and> endswith
       (e_image (sample_enclosure\<lparr>e_image := ''media/123e4567-e89b-12d3-a456-426614174000.png''\<rparr>))
       (e_id sample_enclosure @ Path_suffix (e_image sample_enclosure))
   \<and> \<not> rename_regex_search (e_id sample_enclosure) (e_image sample_enclosure)
   \<and> os_rename [] (Path_str (e_image sample_enclosure))
        (Path_parent (e_image sample_enclosure) @ ''/'' @ e_id sample_enclosure
           @ Path_suffix (e_image sample_enclosure)) = Inl OSError
   \<and> Enclosure_rename_image os_rename [] sample_enclosure = Inl OSError"
proof -
  let ?e' = "sample_enclosure\<lparr>e_image := ''media/123e4567-e89b-12d3-a456-426614174000.png''\<rparr>"
  have moved: "Enclosure_rename_image os_rename [''media/upload.png''] sample_enclosure
     = Inr ([''media/123e4567-e89b-12d3-a456-426614174000.png''], ?e')"
    by code_simp
  have differs: "?e' \<noteq> sample_enclosure"
    by code_simp
  have unnamed: "\<not> rename_regex_search (e_id sample_enclosure) (e_image sample_enclosure)"
    by code_simp
  have refused: "os_rename [] (Path_str (e_image sample_enclosure))
        (Path_parent (e_image sample_enclosure) @ ''/'' @ e_id sample_enclosure
           @ Path_suffix (e_image sample_enclosure)) = Inl OSError"
    by code_simp
  have ends: "endswith (e_image ?e')
       (e_id sample_enclosure @ Path_suffix (e_image sample_enclosure))"
    using Enclosure_image_named_after_id [where rename = os_rename
      and fs = "[''media/upload.png'']" and e = sample_enclosure
      and fs' = "[''media/123e4567-e89b-12d3-a456-426614174000.png'']" and e' = ?e']
      moved differs
    by blast
  have fails: "Enclosure_rename_image os_rename [] sample_enclosure = Inl OSError"
    using Enclosure_image_named_after_id [where rename = os_rename
      and fs = "[]" and e = sample_enclosure and err = OSError] unnamed refused
    by blast
  from moved ends unnamed refused fails show ?thesis
    by (intro conjI)
qed

end
